theory Spec2Isabelle
  imports Main
begin

section \<open>Python values and exceptions\<close>

text \<open>
  The values that reach the Compactor are the Python objects that \<^verbatim>\<open>ijson\<close> builds from
  a JSON document: \<^verbatim>\<open>None\<close>, booleans, unbounded integers, \<^verbatim>\<open>Decimal\<close> numbers (a
  coefficient and a power of ten), strings, lists and dicts. A dict is an association list
  in insertion order; a Python dict has no duplicate keys, and \<^verbatim>\<open>d.get(k)\<close> is
  \<open>map_of\<close> on it.
\<close>

datatype json =
    JNull
  | JBool bool
  | JInt int
  | JDec int int
  | JStr string
  | JList "json list"
  | JDict "(string \<times> json) list"

datatype py_error =
    AttributeError
  | TypeError
  | StopIteration
  | FileNotFoundError
  | HTTPError
  | ConnectionError
  | OSError
  | UnicodeEncodeError

text \<open>Sequencing of computations that may raise: the first exception wins.\<close>

definition py_bind :: "py_error + 'a \<Rightarrow> ('a \<Rightarrow> py_error + 'b) \<Rightarrow> py_error + 'b" where
  "py_bind m f = (case m of Inl e \<Rightarrow> Inl e | Inr a \<Rightarrow> f a)"

fun isinstance_dict :: "json \<Rightarrow> bool" where
  "isinstance_dict (JDict d) = True"
| "isinstance_dict v = False"

fun isinstance_list :: "json \<Rightarrow> bool" where
  "isinstance_list (JList xs) = True"
| "isinstance_list v = False"

fun isinstance_str :: "json \<Rightarrow> bool" where
  "isinstance_str (JStr s) = True"
| "isinstance_str v = False"

text \<open>Python truth value: \<^verbatim>\<open>None\<close>, \<^verbatim>\<open>False\<close>, zero and every empty container are false.\<close>

fun truthy :: "json \<Rightarrow> bool" where
  "truthy JNull = False"
| "truthy (JBool b) = b"
| "truthy (JInt n) = (n \<noteq> 0)"
| "truthy (JDec c e) = (c \<noteq> 0)"
| "truthy (JStr s) = (s \<noteq> [])"
| "truthy (JList xs) = (xs \<noteq> [])"
| "truthy (JDict d) = (d \<noteq> [])"

text \<open>
  \<^verbatim>\<open>x.get(k, default)\<close>: only a dict has the method, on any other value the attribute
  lookup raises \<^verbatim>\<open>AttributeError\<close>. \<^verbatim>\<open>x.get(k)\<close> is \<open>py_get x k JNull\<close>; on a dict
  \<open>d\<close> the call cannot fail and returns \<open>dict_get d k dflt\<close>.
\<close>

definition dict_get :: "(string \<times> json) list \<Rightarrow> string \<Rightarrow> json \<Rightarrow> json" where
  "dict_get d k dflt = (case map_of d k of None \<Rightarrow> dflt | Some v \<Rightarrow> v)"

fun py_get :: "json \<Rightarrow> string \<Rightarrow> json \<Rightarrow> py_error + json" where
  "py_get (JDict d) k dflt = Inr (dict_get d k dflt)"
| "py_get v k dflt = Inl AttributeError"

text \<open>\<^verbatim>\<open>d[k] = v\<close>: an existing key keeps its place, a new key goes last.\<close>

fun dict_set :: "(string \<times> json) list \<Rightarrow> string \<Rightarrow> json \<Rightarrow> (string \<times> json) list" where
  "dict_set [] k v = [(k, v)]"
| "dict_set ((k', v') # d) k v = (if k' = k then (k, v) # d else (k', v') # dict_set d k v)"

text \<open>
  \<^verbatim>\<open>x in S\<close> for a set \<open>S\<close> of strings hashes \<open>x\<close> first: a list or a dict is
  unhashable and raises \<^verbatim>\<open>TypeError\<close>; a string is a member when it is an element; every
  other hashable value equals no string.
\<close>

fun py_in_strs :: "json \<Rightarrow> string list \<Rightarrow> py_error + bool" where
  "py_in_strs (JList xs) S = Inl TypeError"
| "py_in_strs (JDict d) S = Inl TypeError"
| "py_in_strs (JStr s) S = Inr (s \<in> set S)"
| "py_in_strs v S = Inr False"

text \<open>\<^verbatim>\<open>a or b\<close>: the left operand when it is true, else the right one, which is only then evaluated.\<close>

definition py_or :: "py_error + json \<Rightarrow> py_error + json \<Rightarrow> py_error + json" where
  "py_or a b = py_bind a (\<lambda>x. if truthy x then Inr x else b)"

section \<open>compact\_database.py\<close>

definition ESSENTIAL_PROPERTY_KINDS :: "string list" where
  "ESSENTIAL_PROPERTY_KINDS =
     [''Melting Point'', ''Water Solubility'', ''Molecular Weight'', ''logP'', ''pKa'']"

subsection \<open>simplify\_dosing\<close>

text \<open>
  The dict comprehension \<^verbatim>\<open>{k: d.get(k) for k in keys if d.get(k) is not None}\<close>, with the
  dict built so far as accumulator.
\<close>

fun keep_not_none :: "json \<Rightarrow> string list \<Rightarrow> (string \<times> json) list \<Rightarrow> py_error + (string \<times> json) list" where
  "keep_not_none d [] acc = Inr acc"
| "keep_not_none d (k # ks) acc =
     py_bind (py_get d k JNull) (\<lambda>c.
       if c \<noteq> JNull
       then py_bind (py_get d k JNull) (\<lambda>v. keep_not_none d ks (dict_set acc k v))
       else keep_not_none d ks acc)"

definition simplify_dosing :: "json \<Rightarrow> py_error + json" where
  "simplify_dosing dosing =
     (if \<not> isinstance_dict dosing then Inr (JDict [])
      else
        py_bind (keep_not_none dosing
          [''has_dosing'', ''source'', ''frequency'', ''times_per_day'', ''routes'', ''instructions''] [])
        (\<lambda>simplified.
        py_bind (py_get dosing ''openfda_full'' JNull) (\<lambda>openfda_full.
          if isinstance_dict openfda_full
          then py_bind (keep_not_none openfda_full
                 [''frequency'', ''times_per_day'', ''times_per_day_range'', ''route'', ''routes'',
                  ''instructions''] [])
               (\<lambda>inner. Inr (JDict (dict_set simplified ''openfda_full'' (JDict inner))))
          else Inr (JDict simplified))))"

subsection \<open>simplify\_interactions, simplify\_dosages\<close>

fun interactions_loop :: "json list \<Rightarrow> json list \<Rightarrow> py_error + json list" where
  "interactions_loop [] simplified = Inr simplified"
| "interactions_loop (interaction # rest) simplified =
     (if \<not> isinstance_dict interaction then interactions_loop rest simplified
      else
        py_bind (py_get interaction ''drugbank_id'' JNull) (\<lambda>a.
        py_bind (py_get interaction ''name'' JNull) (\<lambda>b.
        py_bind (py_get interaction ''description'' JNull) (\<lambda>c.
        interactions_loop rest
          (simplified @ [JDict [(''drugbank_id'', a), (''name'', b), (''description'', c)]])))))"

definition simplify_interactions :: "json \<Rightarrow> py_error + json" where
  "simplify_interactions interactions =
     (case interactions of
        JList xs \<Rightarrow> py_bind (interactions_loop xs []) (\<lambda>simplified. Inr (JList simplified))
      | _ \<Rightarrow> Inr (JList []))"

fun dosages_loop :: "json list \<Rightarrow> json list \<Rightarrow> py_error + json list" where
  "dosages_loop [] simplified = Inr simplified"
| "dosages_loop (dosage # rest) simplified =
     (if \<not> isinstance_dict dosage then dosages_loop rest simplified
      else
        py_bind (py_get dosage ''form'' JNull) (\<lambda>a.
        py_bind (py_get dosage ''route'' JNull) (\<lambda>b.
        py_bind (py_get dosage ''strength'' JNull) (\<lambda>c.
        dosages_loop rest
          (simplified @ [JDict [(''form'', a), (''route'', b), (''strength'', c)]])))))"

definition simplify_dosages :: "json \<Rightarrow> py_error + json" where
  "simplify_dosages dosages =
     (case dosages of
        JList xs \<Rightarrow> py_bind (dosages_loop xs []) (\<lambda>simplified. Inr (JList simplified))
      | _ \<Rightarrow> Inr (JList []))"

subsection \<open>simplify\_properties\<close>

fun properties_loop :: "json list \<Rightarrow> json list \<Rightarrow> py_error + json list" where
  "properties_loop [] simplified = Inr simplified"
| "properties_loop (prop # rest) simplified =
     (if \<not> isinstance_dict prop then properties_loop rest simplified
      else
        py_bind (py_get prop ''kind'' JNull) (\<lambda>kind.
        py_bind (py_in_strs kind ESSENTIAL_PROPERTY_KINDS) (\<lambda>essential.
          if essential
          then
            py_bind (py_get prop ''kind'' JNull) (\<lambda>a.
            py_bind (py_get prop ''value'' JNull) (\<lambda>b.
            py_bind (py_get prop ''unit'' JNull) (\<lambda>c.
            properties_loop rest
              (simplified @ [JDict [(''kind'', a), (''value'', b), (''unit'', c)]]))))
          else properties_loop rest simplified)))"

definition simplify_properties :: "json \<Rightarrow> py_error + json" where
  "simplify_properties properties =
     (case properties of
        JList xs \<Rightarrow> py_bind (properties_loop xs []) (\<lambda>simplified. Inr (JList simplified))
      | _ \<Rightarrow> Inr (JList []))"

subsection \<open>simplify\_categories\<close>

fun categories_loop :: "json list \<Rightarrow> json list \<Rightarrow> py_error + json list" where
  "categories_loop [] simplified = Inr simplified"
| "categories_loop (category # rest) simplified =
     (if isinstance_dict category
      then
        py_bind
          (py_or (py_get category ''category'' JNull)
            (py_or (py_get category ''mesh_id'' JNull) (py_get category ''name'' JNull)))
        (\<lambda>label.
          if truthy label then categories_loop rest (simplified @ [label])
          else categories_loop rest simplified)
      else if isinstance_str category then categories_loop rest (simplified @ [category])
      else categories_loop rest simplified)"

definition simplify_categories :: "json \<Rightarrow> py_error + json" where
  "simplify_categories categories =
     (case categories of
        JList xs \<Rightarrow> py_bind (categories_loop xs []) (\<lambda>simplified. Inr (JList simplified))
      | _ \<Rightarrow> Inr (JList []))"

subsection \<open>trim\_drug\<close>

text \<open>
  The dict literal evaluates its values in the order written, so the first expression that
  raises decides the exception. \<^verbatim>\<open>drug.get("drugbank_ids", {})\<close> is evaluated twice, and
  \<^verbatim>\<open>.get\<close> is called on whatever it returns.
\<close>

definition trim_drug :: "json \<Rightarrow> py_error + json" where
  "trim_drug drug =
     py_bind (py_get drug ''name'' JNull) (\<lambda>name.
     py_bind (py_bind (py_get drug ''drugbank_ids'' (JDict [])) (\<lambda>ids. py_get ids ''primary'' JNull))
       (\<lambda>primary.
     py_bind (py_bind (py_get drug ''drugbank_ids'' (JDict [])) (\<lambda>ids. py_get ids ''secondary'' (JList [])))
       (\<lambda>secondary.
     py_bind (py_get drug ''description'' JNull) (\<lambda>description.
     py_bind (py_get drug ''type'' JNull) (\<lambda>type.
     py_bind (py_get drug ''groups'' (JList [])) (\<lambda>groups.
     py_bind (py_bind (py_get drug ''categories'' JNull) simplify_categories) (\<lambda>categories.
     py_bind (py_get drug ''mechanism_of_action'' JNull) (\<lambda>mechanism_of_action.
     py_bind (py_get drug ''half_life'' JNull) (\<lambda>half_life.
     py_bind (py_get drug ''absorption'' JNull) (\<lambda>absorption.
     py_bind (py_get drug ''metabolism'' JNull) (\<lambda>metabolism.
     py_bind (py_get drug ''food_interactions'' (JList [])) (\<lambda>food_interactions.
     py_bind (py_bind (py_get drug ''drug_interactions'' JNull) simplify_interactions)
       (\<lambda>drug_interactions.
     py_bind (py_bind (py_get drug ''experimental_properties'' JNull) simplify_properties)
       (\<lambda>experimental_properties.
     py_bind (py_bind (py_get drug ''dosages'' JNull) simplify_dosages) (\<lambda>dosages.
     py_bind (py_bind (py_get drug ''dosing_info'' JNull) simplify_dosing) (\<lambda>dosing_info.
       Inr (JDict
         [(''name'', name),
          (''drugbank_ids'', JDict [(''primary'', primary), (''secondary'', secondary)]),
          (''description'', description),
          (''type'', type),
          (''groups'', groups),
          (''categories'', categories),
          (''mechanism_of_action'', mechanism_of_action),
          (''half_life'', half_life),
          (''absorption'', absorption),
          (''metabolism'', metabolism),
          (''food_interactions'', food_interactions),
          (''drug_interactions'', drug_interactions),
          (''experimental_properties'', experimental_properties),
          (''dosages'', dosages),
          (''dosing_info'', dosing_info)])))))))))))))))))"

subsection \<open>main\<close>

text \<open>
  The world of the Compactor: the source file (\<open>None\<close> when it does not exist, else the
  document that \<^verbatim>\<open>ijson\<close> reads from it, taken to be well-formed JSON), the target file
  (\<open>None\<close> when it does not exist, else what has been written to it: the texts of
  \<^verbatim>\<open>out.write\<close> and the values of \<^verbatim>\<open>json.dump\<close>, in order) and the lines printed.
  The Compactor's lines are ASCII text around the path of a file; they are taken to print.
  A function with effects returns its outcome (the exception raised, or its value) together
  with the world it leaves behind.
\<close>

datatype chunk = Text string | Dump json

datatype message =
    CompactExists
  | ReadingSource
  | WroteCompact
  | Downloaded string
  | DownloadFailed string string py_error
  | AlreadyPresent string
  | NoUrl string
  | NoDatabases

record compactor_world =
  source_file :: "json option"
  target_file :: "chunk list option"
  compactor_out :: "message list"

text \<open>
  \<^verbatim>\<open>ijson.items(f, prefix)\<close> yields, in document order, every value whose dotted path is
  \<open>prefix\<close>; the path of a member is its parent's path and its key, the path of an array
  element is its parent's path and \<^verbatim>\<open>item\<close>. The path \<^verbatim>\<open>metadata\<close> is that of the
  top-level members named \<^verbatim>\<open>metadata\<close>. The path \<^verbatim>\<open>drugs.item\<close> is that of the
  elements of an array under a top-level member \<^verbatim>\<open>drugs\<close>, and also that of a member
  \<^verbatim>\<open>item\<close> of a mapping there and of a top-level member whose key is \<^verbatim>\<open>drugs.item\<close>.
  \<^verbatim>\<open>next\<close> takes the first value of a generator and raises \<^verbatim>\<open>StopIteration\<close> on an
  exhausted one.
\<close>

fun items_at :: "json \<Rightarrow> string \<Rightarrow> json list" where
  "items_at (JDict members) key = map snd (filter (\<lambda>kv. fst kv = key) members)"
| "items_at v key = []"

fun member_drugs :: "string \<times> json \<Rightarrow> json list" where
  "member_drugs (k, v) =
     (if k = ''drugs.item'' then [v]
      else if k = ''drugs'' then (case v of JList xs \<Rightarrow> xs | _ \<Rightarrow> items_at v ''item'')
      else [])"

definition drugs_items :: "json \<Rightarrow> json list" where
  "drugs_items doc = (case doc of JDict members \<Rightarrow> concat (map member_drugs members) | _ \<Rightarrow> [])"

definition py_next :: "'a list \<Rightarrow> py_error + 'a" where
  "py_next xs = (case xs of [] \<Rightarrow> Inl StopIteration | x # rest \<Rightarrow> Inr x)"

text \<open>The loop of \<^verbatim>\<open>main\<close> over the drugs, with the flag \<open>first\<close> and the target's content so far.\<close>

fun write_drugs :: "json list \<Rightarrow> bool \<Rightarrow> chunk list \<Rightarrow> (py_error + unit) \<times> chunk list" where
  "write_drugs [] first out = (Inr (), out)"
| "write_drugs (drug # rest) first out =
     (case trim_drug drug of
        Inl e \<Rightarrow> (Inl e, out)
      | Inr trimmed \<Rightarrow>
          write_drugs rest False ((if \<not> first then out @ [Text '',''] else out) @ [Dump trimmed]))"

definition compact_database_main :: "compactor_world \<Rightarrow> (py_error + unit) \<times> compactor_world" where
  "compact_database_main w =
     (case source_file w of
        None \<Rightarrow> (Inl FileNotFoundError, w)
      | Some doc \<Rightarrow>
          if target_file w \<noteq> None
          then (Inr (), w\<lparr>compactor_out := compactor_out w @ [CompactExists]\<rparr>)
          else
            (let w1 = w\<lparr>compactor_out := compactor_out w @ [ReadingSource]\<rparr> in
             case py_next (items_at doc ''metadata'') of
               Inl e \<Rightarrow> (Inl e, w1)
             | Inr metadata \<Rightarrow>
                 (case write_drugs (drugs_items doc) True
                         [Text ''{\"metadata\":'', Dump metadata, Text '',\"drugs\":['']
                  of
                    (Inl e, out) \<Rightarrow> (Inl e, w1\<lparr>target_file := Some out\<rparr>)
                  | (Inr u, out) \<Rightarrow>
                      (Inr (), w1\<lparr>target_file := Some (out @ [Text '']}'']),
                                  compactor_out := compactor_out w1 @ [WroteCompact]\<rparr>))))"

section \<open>download\_databases.py\<close>

definition COMPACT_DB :: string where
  "COMPACT_DB = ''comprehensive_drug_database_compact.json''"

definition FULL_DB :: string where
  "FULL_DB = ''comprehensive_drug_database.json''"

definition DEFAULT_COMPACT_URL :: string where
  "DEFAULT_COMPACT_URL =
     ''https://drive.google.com/file/d/12o_cdObA01lxXJMY8LjCqlPVrXF56bZF/view?usp=drive_link''"

subsection \<open>extract\_drive\_file\_id, build\_drive\_download\_url\<close>

definition startswith :: "string \<Rightarrow> string \<Rightarrow> bool" where
  "startswith s p = (take (length p) s = p)"

text \<open>
  The two patterns, matched at the start of \<open>s\<close>, with the text of group 1.
  \<^verbatim>\<open>https://drive\.google\.com/file/d/([^/]+)/\<close>: after the literal, the greedy group takes
  every character up to the next slash; it must be non-empty and the slash must be there
  (a shorter group would be followed by a character that is not a slash).
  \<^verbatim>\<open>id=([^&]+)\<close>: after the literal, a non-empty run up to the next ampersand or the end.
\<close>

definition match_file_d :: "string \<Rightarrow> string option" where
  "match_file_d s =
     (if startswith s ''https://drive.google.com/file/d/''
      then
        (let rest = drop (length ''https://drive.google.com/file/d/'') s;
             g = takeWhile (\<lambda>c. c \<noteq> CHR ''/'') rest
         in if g \<noteq> [] \<and> startswith (drop (length g) rest) ''/'' then Some g else None)
      else None)"

definition match_id :: "string \<Rightarrow> string option" where
  "match_id s =
     (if startswith s ''id=''
      then
        (let g = takeWhile (\<lambda>c. c \<noteq> CHR ''&'') (drop (length ''id='') s)
         in if g \<noteq> [] then Some g else None)
      else None)"

text \<open>\<^verbatim>\<open>re.search\<close>: the match at the leftmost position where the pattern matches.\<close>

fun re_search :: "(string \<Rightarrow> string option) \<Rightarrow> string \<Rightarrow> string option" where
  "re_search pattern [] = pattern []"
| "re_search pattern (c # cs) =
     (case pattern (c # cs) of Some g \<Rightarrow> Some g | None \<Rightarrow> re_search pattern cs)"

fun first_match :: "(string \<Rightarrow> string option) list \<Rightarrow> string \<Rightarrow> string option" where
  "first_match [] url = None"
| "first_match (pattern # patterns) url =
     (case re_search pattern url of Some g \<Rightarrow> Some g | None \<Rightarrow> first_match patterns url)"

definition extract_drive_file_id :: "string \<Rightarrow> string option" where
  "extract_drive_file_id url = first_match [match_file_d, match_id] url"

definition build_drive_download_url :: "string \<Rightarrow> string" where
  "build_drive_download_url file_id = ''https://drive.google.com/uc?export=download&id='' @ file_id"

subsection \<open>download\_file\<close>

text \<open>
  The network and the file system the Fetcher runs against. A request is the URL and the
  query parameters of \<^verbatim>\<open>session.get\<close>; the call raises or returns a response, of which
  the code reads the cookies (name and value, in the jar's order), the status and the
  body, streamed in chunks; the stream may break with an exception after its chunks.
  Creating the parent directory or opening the target may raise as well. Every line the
  Fetcher prints (lines 71, 74, 80, 83 and 96) starts with a sign outside ASCII, so
  \<^verbatim>\<open>print\<close> raises \<^verbatim>\<open>UnicodeEncodeError\<close>, and prints nothing, on a standard output
  whose encoding has no such sign. The world holds the files (path to content), the
  requests issued so far and the lines printed.
\<close>

record request =
  req_url :: string
  req_params :: "(string \<times> string) list"

record response =
  cookies :: "(string \<times> string) list"
  status_code :: nat
  content_chunks :: "string list"
  stream_error :: "py_error option"

record env =
  http_get :: "request \<Rightarrow> py_error + response"
  open_error :: "string \<Rightarrow> py_error option"
  getenv :: "string \<Rightarrow> string option"
  stdout_encodes :: bool

record fetcher_world =
  files :: "string \<Rightarrow> string option"
  requests :: "request list"
  fetcher_out :: "message list"

definition fetcher_print :: "env \<Rightarrow> message \<Rightarrow> fetcher_world \<Rightarrow> (py_error + unit) \<times> fetcher_world" where
  "fetcher_print env line w =
     (if stdout_encodes env then (Inr (), w\<lparr>fetcher_out := fetcher_out w @ [line]\<rparr>)
      else (Inl UnicodeEncodeError, w))"

definition download_url_of :: "string \<Rightarrow> string" where
  "download_url_of url =
     (case extract_drive_file_id url of
        Some file_id \<Rightarrow> if file_id \<noteq> [] then build_drive_download_url file_id else url
      | None \<Rightarrow> url)"

text \<open>The loop over the cookies: the value of the first one whose key starts with the marker.\<close>

fun find_token :: "(string \<times> string) list \<Rightarrow> string option" where
  "find_token [] = None"
| "find_token ((key, val) # rest) =
     (if startswith key ''download_warning'' then Some val else find_token rest)"

text \<open>
  Lines 46 to 60 of the \<^verbatim>\<open>try\<close> block: the first request, the token, and the second
  request when \<^verbatim>\<open>if token:\<close> holds (a token that is there and is not the empty string).
  The result is the response the rest of the block works with.
\<close>

definition fetch_response :: "env \<Rightarrow> string \<Rightarrow> fetcher_world \<Rightarrow> (py_error + response) \<times> fetcher_world" where
  "fetch_response env url w =
     (let download_url = download_url_of url;
          w1 = w\<lparr>requests := requests w @ [\<lparr>req_url = download_url, req_params = []\<rparr>]\<rparr>
      in case http_get env \<lparr>req_url = download_url, req_params = []\<rparr> of
           Inl e \<Rightarrow> (Inl e, w1)
         | Inr response \<Rightarrow>
             (case find_token (cookies response) of
                None \<Rightarrow> (Inr response, w1)
              | Some token \<Rightarrow>
                  if token \<noteq> []
                  then (http_get env \<lparr>req_url = download_url, req_params = [(''confirm'', token)]\<rparr>,
                        w1\<lparr>requests := requests w1 @
                             [\<lparr>req_url = download_url, req_params = [(''confirm'', token)]\<rparr>]\<rparr>)
                  else (Inr response, w1)))"

fun write_chunks :: "string list \<Rightarrow> string \<Rightarrow> string" where
  "write_chunks [] content = content"
| "write_chunks (chunk # rest) content =
     (if chunk \<noteq> [] then write_chunks rest (content @ chunk) else write_chunks rest content)"

text \<open>
  Lines 62 to 72: \<^verbatim>\<open>raise_for_status\<close> raises on a 4xx or 5xx status; then the target is
  opened (created or truncated) and the chunks that are not empty are written to it; the
  success line is printed last, still inside the \<^verbatim>\<open>try\<close> block.
\<close>

definition save_response :: "env \<Rightarrow> response \<Rightarrow> string \<Rightarrow> fetcher_world \<Rightarrow> (py_error + unit) \<times> fetcher_world" where
  "save_response env response target w =
     (if 400 \<le> status_code response \<and> status_code response < 600 then (Inl HTTPError, w)
      else
        (case open_error env target of
           Some e \<Rightarrow> (Inl e, w)
         | None \<Rightarrow>
             (let w1 = w\<lparr>files := (files w)(target \<mapsto> write_chunks (content_chunks response) [])\<rparr>
              in case stream_error response of
                   Some e \<Rightarrow> (Inl e, w1)
                 | None \<Rightarrow> fetcher_print env (Downloaded target) w1)))"

definition download_file_try :: "env \<Rightarrow> string \<Rightarrow> string \<Rightarrow> fetcher_world \<Rightarrow> (py_error + unit) \<times> fetcher_world" where
  "download_file_try env url target w =
     (case fetch_response env url w of
        (Inl e, w1) \<Rightarrow> (Inl e, w1)
      | (Inr response, w1) \<Rightarrow> save_response env response target w1)"

text \<open>
  \<^verbatim>\<open>try: ... return True  except Exception as exc: print(...); return False\<close>. The
  \<^verbatim>\<open>print\<close> of the handler is outside every \<^verbatim>\<open>try\<close>: what it raises leaves
  \<^verbatim>\<open>download_file\<close>.
\<close>

definition download_file :: "env \<Rightarrow> string \<Rightarrow> string \<Rightarrow> fetcher_world \<Rightarrow> (py_error + bool) \<times> fetcher_world" where
  "download_file env url target w =
     (case download_file_try env url target w of
        (Inr u, w1) \<Rightarrow> (Inr True, w1)
      | (Inl exc, w1) \<Rightarrow>
          (case fetcher_print env (DownloadFailed url target exc) w1 of
             (Inl e, w2) \<Rightarrow> (Inl e, w2)
           | (Inr u, w2) \<Rightarrow> (Inr False, w2)))"

subsection \<open>ensure\_file, main\<close>

definition ensure_file :: "env \<Rightarrow> string \<Rightarrow> string option \<Rightarrow> fetcher_world \<Rightarrow> (py_error + unit) \<times> fetcher_world" where
  "ensure_file env target url w =
     (if files w target \<noteq> None
      then fetcher_print env (AlreadyPresent target) w
      else
        (case url of
           None \<Rightarrow> fetcher_print env (NoUrl target) w
         | Some u \<Rightarrow>
             if u = [] then fetcher_print env (NoUrl target) w
             else
               (case download_file env u target w of
                  (Inl e, w1) \<Rightarrow> (Inl e, w1)
                | (Inr downloaded, w1) \<Rightarrow> (Inr (), w1))))"

definition download_databases_main :: "env \<Rightarrow> fetcher_world \<Rightarrow> (py_error + unit) \<times> fetcher_world" where
  "download_databases_main env w =
     (let compact_url =
            (case getenv env ''COMPACT_DATABASE_URL'' of
               None \<Rightarrow> Some DEFAULT_COMPACT_URL
             | Some v \<Rightarrow> Some v);
          full_url = getenv env ''DATABASE_URL''
      in case ensure_file env COMPACT_DB compact_url w of
           (Inl e, w1) \<Rightarrow> (Inl e, w1)
         | (Inr u1, w1) \<Rightarrow>
             (case ensure_file env FULL_DB full_url w1 of
                (Inl e, w2) \<Rightarrow> (Inl e, w2)
              | (Inr u2, w2) \<Rightarrow>
                  if files w2 COMPACT_DB = None \<and> files w2 FULL_DB = None
                  then fetcher_print env NoDatabases w2
                  else (Inr (), w2)))"

section \<open>The specification's notions\<close>

text \<open>
  The value an entry has under a key, null when the entry is not a mapping or lacks the
  key, and an entry reduced to a fixed list of keys.
\<close>

definition get_or_null :: "json \<Rightarrow> string \<Rightarrow> json" where
  "get_or_null e k = (case e of JDict d \<Rightarrow> dict_get d k JNull | _ \<Rightarrow> JNull)"

definition reduce_to :: "string list \<Rightarrow> json \<Rightarrow> json" where
  "reduce_to ks e = JDict (map (\<lambda>k. (k, get_or_null e k)) ks)"

text \<open>
  The label of a category entry in the specification's words: a plain string is its own
  label; a mapping gives the first non-empty value among those it has under
  \<^verbatim>\<open>category\<close>, \<^verbatim>\<open>mesh_id\<close> and \<^verbatim>\<open>name\<close>, if any; anything else has none.
  Non-empty is Python's truth value, which for a string is that it is not \<^verbatim>\<open>""\<close>.
\<close>

definition spec_category_label :: "json \<Rightarrow> json option" where
  "spec_category_label entry =
     (case entry of
        JStr s \<Rightarrow> Some (JStr s)
      | JDict d \<Rightarrow> find truthy (List.map_filter (map_of d) [''category'', ''mesh_id'', ''name''])
      | _ \<Rightarrow> None)"

text \<open>An entry whose kind is in the allowed set, and a value that can be hashed.\<close>

definition hashable :: "json \<Rightarrow> bool" where
  "hashable v = (\<not> isinstance_list v \<and> \<not> isinstance_dict v)"

definition spec_essential :: "json \<Rightarrow> bool" where
  "spec_essential e =
     (isinstance_dict e \<and>
      (case get_or_null e ''kind'' of JStr s \<Rightarrow> s \<in> set ESSENTIAL_PROPERTY_KINDS | _ \<Rightarrow> False))"

text \<open>The fifteen keys of a trimmed record, and the value a mapping has under a key.\<close>

definition TRIMMED_KEYS :: "string list" where
  "TRIMMED_KEYS =
     [''name'', ''drugbank_ids'', ''description'', ''type'', ''groups'', ''categories'',
      ''mechanism_of_action'', ''half_life'', ''absorption'', ''metabolism'', ''food_interactions'',
      ''drug_interactions'', ''experimental_properties'', ''dosages'', ''dosing_info'']"

definition field_of :: "json \<Rightarrow> string \<Rightarrow> json option" where
  "field_of v k = (case v of JDict d \<Rightarrow> map_of d k | _ \<Rightarrow> None)"

definition keys_of :: "json \<Rightarrow> string list" where
  "keys_of v = (case v of JDict d \<Rightarrow> map fst d | _ \<Rightarrow> [])"

text \<open>
  The value under a key of the mapping a call returned: \<open>None\<close> when the call raised or
  the mapping has no such key, \<open>Some JNull\<close> when the key is there with a null value.
\<close>

definition result_field :: "py_error + json \<Rightarrow> string \<Rightarrow> json option" where
  "result_field r k = (case r of Inl e \<Rightarrow> None | Inr t \<Rightarrow> field_of t k)"

text \<open>
  The trimmed record of section 3 for a source record \<open>d\<close>, given the two identifiers and
  the simplified properties and dosing information: scalars and the two plain sequences
  are copied, the other sequences are filtered entry by entry.
\<close>

definition trimmed_record :: "(string \<times> json) list \<Rightarrow> json \<Rightarrow> json \<Rightarrow> json \<Rightarrow> json \<Rightarrow> json" where
  "trimmed_record d primary secondary props dosing =
     JDict
       [(''name'', dict_get d ''name'' JNull),
        (''drugbank_ids'', JDict [(''primary'', primary), (''secondary'', secondary)]),
        (''description'', dict_get d ''description'' JNull),
        (''type'', dict_get d ''type'' JNull),
        (''groups'', dict_get d ''groups'' (JList [])),
        (''categories'',
           (case dict_get d ''categories'' JNull of
              JList xs \<Rightarrow> JList (List.map_filter spec_category_label xs)
            | _ \<Rightarrow> JList [])),
        (''mechanism_of_action'', dict_get d ''mechanism_of_action'' JNull),
        (''half_life'', dict_get d ''half_life'' JNull),
        (''absorption'', dict_get d ''absorption'' JNull),
        (''metabolism'', dict_get d ''metabolism'' JNull),
        (''food_interactions'', dict_get d ''food_interactions'' (JList [])),
        (''drug_interactions'',
           (case dict_get d ''drug_interactions'' JNull of
              JList xs \<Rightarrow>
                JList (map (reduce_to [''drugbank_id'', ''name'', ''description''])
                        (filter isinstance_dict xs))
            | _ \<Rightarrow> JList [])),
        (''experimental_properties'', props),
        (''dosages'',
           (case dict_get d ''dosages'' JNull of
              JList xs \<Rightarrow>
                JList (map (reduce_to [''form'', ''route'', ''strength'']) (filter isinstance_dict xs))
            | _ \<Rightarrow> JList [])),
        (''dosing_info'', dosing)]"

text \<open>The value of the first cookie, in the jar's order, whose key starts with the marker.\<close>

definition first_warning_cookie :: "(string \<times> string) list \<Rightarrow> string option" where
  "first_warning_cookie cs =
     map_option snd (find (\<lambda>kv. startswith (fst kv) ''download_warning'') cs)"

section \<open>Basic facts about the Python operations\<close>

lemma py_bind_Inr [simp]: "py_bind (Inr a) f = f a"
  by (simp add: py_bind_def)

lemma py_bind_Inl [simp]: "py_bind (Inl e) f = Inl e"
  by (simp add: py_bind_def)

lemma py_bind_eq_Inr: "py_bind m f = Inr r \<longleftrightarrow> (\<exists>a. m = Inr a \<and> f a = Inr r)"
  by (cases m) simp_all

lemma isinstance_dict_iff: "isinstance_dict x \<longleftrightarrow> (\<exists>d. x = JDict d)"
  by (cases x) simp_all

lemma isinstance_list_iff: "isinstance_list x \<longleftrightarrow> (\<exists>xs. x = JList xs)"
  by (cases x) simp_all

lemma py_get_null: "py_get (JDict d) k JNull = Inr (get_or_null (JDict d) k)"
  by (simp add: get_or_null_def)

lemma py_in_strs_hashable:
  "hashable v \<Longrightarrow> py_in_strs v S = Inr (case v of JStr s \<Rightarrow> s \<in> set S | _ \<Rightarrow> False)"
  by (cases v) (simp_all add: hashable_def)

lemma py_in_strs_unhashable: "\<not> hashable v \<Longrightarrow> py_in_strs v S = Inl TypeError"
  by (cases v) (simp_all add: hashable_def)

section \<open>The simplify functions\<close>

subsection \<open>Interactions and dosages\<close>

lemma interactions_loop_eq:
  "interactions_loop xs acc =
     Inr (acc @ map (reduce_to [''drugbank_id'', ''name'', ''description'']) (filter isinstance_dict xs))"
proof (induction xs arbitrary: acc)
  case Nil
  show ?case by simp
next
  case (Cons x xs)
  show ?case
  proof (cases "isinstance_dict x")
    case True
    then obtain d where "x = JDict d" by (auto simp: isinstance_dict_iff)
    then show ?thesis
      by (simp add: Cons.IH reduce_to_def get_or_null_def)
  next
    case False
    then show ?thesis by (simp add: Cons.IH)
  qed
qed

lemma dosages_loop_eq:
  "dosages_loop xs acc =
     Inr (acc @ map (reduce_to [''form'', ''route'', ''strength'']) (filter isinstance_dict xs))"
proof (induction xs arbitrary: acc)
  case Nil
  show ?case by simp
next
  case (Cons x xs)
  show ?case
  proof (cases "isinstance_dict x")
    case False
    then show ?thesis by (simp add: Cons.IH)
  next
    case True
    then obtain d where "x = JDict d" by (auto simp: isinstance_dict_iff)
    then show ?thesis
      by (simp add: Cons.IH reduce_to_def get_or_null_def)
  qed
qed

lemma simplify_interactions_eq:
  "simplify_interactions x =
     Inr (case x of
            JList xs \<Rightarrow>
              JList (map (reduce_to [''drugbank_id'', ''name'', ''description'']) (filter isinstance_dict xs))
          | _ \<Rightarrow> JList [])"
  by (cases x) (simp_all add: simplify_interactions_def interactions_loop_eq)

lemma simplify_dosages_eq:
  "simplify_dosages x =
     Inr (case x of
            JList xs \<Rightarrow> JList (map (reduce_to [''form'', ''route'', ''strength'']) (filter isinstance_dict xs))
          | _ \<Rightarrow> JList [])"
  by (cases x) (simp_all add: simplify_dosages_def dosages_loop_eq)

subsection \<open>Categories\<close>

lemma spec_category_label_simps:
  "spec_category_label (JStr s) = Some (JStr s)"
  "spec_category_label JNull = None"
  "spec_category_label (JBool b) = None"
  "spec_category_label (JInt n) = None"
  "spec_category_label (JDec c e) = None"
  "spec_category_label (JList ys) = None"
  by (simp_all add: spec_category_label_def)

lemma label_of_dict:
  "py_or (py_get (JDict d) ''category'' JNull)
     (py_or (py_get (JDict d) ''mesh_id'' JNull) (py_get (JDict d) ''name'' JNull)) = Inr l
   \<Longrightarrow> spec_category_label (JDict d) = (if truthy l then Some l else None)"
  by (auto simp: py_or_def spec_category_label_def dict_get_def List.map_filter_simps
           split: option.splits if_splits)

lemma label_total:
  "\<exists>l. py_or (py_get (JDict d) ''category'' JNull)
     (py_or (py_get (JDict d) ''mesh_id'' JNull) (py_get (JDict d) ''name'' JNull)) = Inr l"
  by (simp add: py_or_def)

lemma categories_loop_eq:
  "categories_loop xs acc = Inr (acc @ List.map_filter spec_category_label xs)"
proof (induction xs arbitrary: acc)
  case Nil
  show ?case by (simp add: List.map_filter_simps)
next
  case (Cons x xs)
  show ?case
  proof (cases x)
    case (JDict d)
    obtain l where l: "py_or (py_get (JDict d) ''category'' JNull)
     (py_or (py_get (JDict d) ''mesh_id'' JNull) (py_get (JDict d) ''name'' JNull)) = Inr l"
      using label_total by blast
    from label_of_dict [OF l] show ?thesis
      using JDict l by (auto simp: Cons.IH List.map_filter_simps split: if_splits)
  next
    case (JStr s)
    then show ?thesis
      by (simp add: Cons.IH List.map_filter_simps spec_category_label_simps)
  qed (simp_all add: Cons.IH List.map_filter_simps spec_category_label_simps)
qed

lemma simplify_categories_eq:
  "simplify_categories x =
     Inr (case x of JList xs \<Rightarrow> JList (List.map_filter spec_category_label xs) | _ \<Rightarrow> JList [])"
  by (cases x) (simp_all add: simplify_categories_def categories_loop_eq)

lemma map_filter_labels_skip:
  "List.map_filter spec_category_label (filter (\<lambda>e. isinstance_dict e \<or> isinstance_str e) xs)
   = List.map_filter spec_category_label xs"
proof (induction xs)
  case Nil
  show ?case by simp
next
  case (Cons x xs)
  then show ?case
    by (cases x) (simp_all add: List.map_filter_simps spec_category_label_simps split: option.splits)
qed

subsection \<open>Dosing information\<close>

lemma keep_not_none_total: "\<exists>r. keep_not_none (JDict d) ks acc = Inr r"
  by (induction ks arbitrary: acc) auto

lemma simplify_dosing_total: "\<exists>v. simplify_dosing x = Inr v"
proof (cases x)
  case (JDict d)
  obtain r where r: "keep_not_none (JDict d)
      [''has_dosing'', ''source'', ''frequency'', ''times_per_day'', ''routes'', ''instructions''] [] = Inr r"
    using keep_not_none_total by blast
  show ?thesis
  proof (cases "isinstance_dict (get_or_null (JDict d) ''openfda_full'')")
    case True
    then obtain d' where d': "get_or_null (JDict d) ''openfda_full'' = JDict d'"
      by (auto simp: isinstance_dict_iff)
    obtain r' where "keep_not_none (JDict d')
      [''frequency'', ''times_per_day'', ''times_per_day_range'', ''route'', ''routes'', ''instructions''] []
        = Inr r'"
      using keep_not_none_total by blast
    with r d' JDict show ?thesis
      by (simp add: simplify_dosing_def py_get_null del: py_get.simps keep_not_none.simps)
  next
    case False
    with r JDict show ?thesis
      by (simp add: simplify_dosing_def py_get_null del: py_get.simps keep_not_none.simps)
  qed
qed (simp_all add: simplify_dosing_def)

subsection \<open>Experimental properties\<close>

lemma properties_step_ok:
  assumes "hashable (get_or_null (JDict d) ''kind'')"
  shows "properties_loop (JDict d # rest) acc =
     (if spec_essential (JDict d)
      then properties_loop rest (acc @ [reduce_to [''kind'', ''value'', ''unit''] (JDict d)])
      else properties_loop rest acc)"
  using assms
  by (simp add: py_get_null py_in_strs_hashable spec_essential_def reduce_to_def del: py_get.simps)

lemma properties_step_raises:
  assumes "\<not> hashable (get_or_null (JDict d) ''kind'')"
  shows "properties_loop (JDict d # rest) acc = Inl TypeError"
  using assms
  by (simp add: py_get_null py_in_strs_unhashable del: py_get.simps)

lemma properties_step_skip:
  "\<not> isinstance_dict x \<Longrightarrow> properties_loop (x # rest) acc = properties_loop rest acc"
  by simp

lemma properties_loop_eq:
  assumes "\<forall>e\<in>set xs. isinstance_dict e \<longrightarrow> hashable (get_or_null e ''kind'')"
  shows "properties_loop xs acc =
     Inr (acc @ map (reduce_to [''kind'', ''value'', ''unit'']) (filter spec_essential xs))"
  using assms
proof (induction xs arbitrary: acc)
  case Nil
  show ?case by simp
next
  case (Cons x xs)
  show ?case
  proof (cases "isinstance_dict x")
    case True
    then obtain d where x: "x = JDict d" by (auto simp: isinstance_dict_iff)
    with Cons.prems have "hashable (get_or_null (JDict d) ''kind'')" by simp
    from properties_step_ok [OF this] Cons.prems show ?thesis
      unfolding x by (simp add: Cons.IH del: properties_loop.simps)
  next
    case False
    then have "\<not> spec_essential x" by (simp add: spec_essential_def)
    with False Cons.prems show ?thesis
      by (simp add: Cons.IH properties_step_skip del: properties_loop.simps)
  qed
qed

lemma properties_loop_raises:
  assumes "e \<in> set xs" "isinstance_dict e" "\<not> hashable (get_or_null e ''kind'')"
  shows "properties_loop xs acc = Inl TypeError"
  using assms
proof (induction xs arbitrary: acc)
  case Nil
  then show ?case by simp
next
  case (Cons x xs)
  show ?case
  proof (cases "isinstance_dict x")
    case False
    with Cons.prems have "e \<in> set xs" by auto
    from Cons.IH [OF this Cons.prems(2,3)] False show ?thesis
      by (simp add: properties_step_skip del: properties_loop.simps)
  next
    case True
    then obtain d where x: "x = JDict d" by (auto simp: isinstance_dict_iff)
    show ?thesis
    proof (cases "hashable (get_or_null (JDict d) ''kind'')")
      case False
      from properties_step_raises [OF this] show ?thesis unfolding x .
    next
      case True
      with Cons.prems x have "e \<in> set xs" by auto
      from Cons.IH [OF this Cons.prems(2,3)] properties_step_ok [OF True] show ?thesis
        unfolding x by simp
    qed
  qed
qed

lemma simplify_properties_hashable:
  assumes "\<forall>e\<in>set xs. isinstance_dict e \<longrightarrow> hashable (get_or_null e ''kind'')"
  shows "simplify_properties (JList xs) =
     Inr (JList (map (reduce_to [''kind'', ''value'', ''unit'']) (filter spec_essential xs)))"
  by (simp add: simplify_properties_def properties_loop_eq [OF assms])

lemma simplify_properties_raises_iff:
  "simplify_properties (JList xs) = Inl TypeError \<longleftrightarrow>
     (\<exists>e\<in>set xs. isinstance_dict e \<and> \<not> hashable (get_or_null e ''kind''))"
proof
  assume raised: "simplify_properties (JList xs) = Inl TypeError"
  show "\<exists>e\<in>set xs. isinstance_dict e \<and> \<not> hashable (get_or_null e ''kind'')"
  proof (rule ccontr)
    assume "\<not> ?thesis"
    then have "\<forall>e\<in>set xs. isinstance_dict e \<longrightarrow> hashable (get_or_null e ''kind'')" by blast
    from simplify_properties_hashable [OF this] raised show False by simp
  qed
next
  assume "\<exists>e\<in>set xs. isinstance_dict e \<and> \<not> hashable (get_or_null e ''kind'')"
  then obtain e where "e \<in> set xs" "isinstance_dict e" "\<not> hashable (get_or_null e ''kind'')"
    by blast
  from properties_loop_raises [OF this] show "simplify_properties (JList xs) = Inl TypeError"
    by (simp add: simplify_properties_def)
qed

lemma simplify_properties_error: "simplify_properties x = Inl e \<Longrightarrow> e = TypeError"
proof (cases x)
  case (JList xs)
  assume raised: "simplify_properties x = Inl e"
  show ?thesis
  proof (cases "\<forall>e\<in>set xs. isinstance_dict e \<longrightarrow> hashable (get_or_null e ''kind'')")
    case True
    from simplify_properties_hashable [OF this] raised JList show ?thesis by simp
  next
    case False
    then have "simplify_properties (JList xs) = Inl TypeError"
      by (simp add: simplify_properties_raises_iff)
    with raised JList show ?thesis by simp
  qed
qed (simp_all add: simplify_properties_def)

section \<open>trim\_drug\<close>

text \<open>
  On a mapping, only four of the value expressions of the dict literal can raise: the two
  lookups inside \<^verbatim>\<open>drugbank_ids\<close>, \<^verbatim>\<open>simplify_properties\<close> and (by its type)
  \<^verbatim>\<open>simplify_dosing\<close>, which in fact never does.
\<close>

lemma trim_drug_dict:
  "trim_drug (JDict d) =
     py_bind (py_get (dict_get d ''drugbank_ids'' (JDict [])) ''primary'' JNull) (\<lambda>primary.
     py_bind (py_get (dict_get d ''drugbank_ids'' (JDict [])) ''secondary'' (JList [])) (\<lambda>secondary.
     py_bind (simplify_properties (dict_get d ''experimental_properties'' JNull)) (\<lambda>props.
     py_bind (simplify_dosing (dict_get d ''dosing_info'' JNull)) (\<lambda>dosing.
       Inr (trimmed_record d primary secondary props dosing)))))"
  unfolding trim_drug_def py_get.simps py_bind_Inr trimmed_record_def
    simplify_categories_eq simplify_interactions_eq simplify_dosages_eq
  by (rule refl)

lemma trim_drug_not_dict: "\<not> isinstance_dict drug \<Longrightarrow> trim_drug drug = Inl AttributeError"
  by (cases drug) (simp_all add: trim_drug_def)

lemma trim_drug_Inr:
  assumes "trim_drug (JDict d) = Inr t"
  obtains ids props dosing where
    "dict_get d ''drugbank_ids'' (JDict []) = JDict ids"
    "simplify_properties (dict_get d ''experimental_properties'' JNull) = Inr props"
    "simplify_dosing (dict_get d ''dosing_info'' JNull) = Inr dosing"
    "t = trimmed_record d (dict_get ids ''primary'' JNull) (dict_get ids ''secondary'' (JList []))
           props dosing"
proof -
  from assms have eq:
    "py_bind (py_get (dict_get d ''drugbank_ids'' (JDict [])) ''primary'' JNull) (\<lambda>primary.
     py_bind (py_get (dict_get d ''drugbank_ids'' (JDict [])) ''secondary'' (JList [])) (\<lambda>secondary.
     py_bind (simplify_properties (dict_get d ''experimental_properties'' JNull)) (\<lambda>props.
     py_bind (simplify_dosing (dict_get d ''dosing_info'' JNull)) (\<lambda>dosing.
       Inr (trimmed_record d primary secondary props dosing))))) = Inr t"
    by (simp only: trim_drug_dict)
  then obtain primary where
    "py_get (dict_get d ''drugbank_ids'' (JDict [])) ''primary'' JNull = Inr primary"
    by (cases "py_get (dict_get d ''drugbank_ids'' (JDict [])) ''primary'' JNull") simp_all
  then obtain ids where ids: "dict_get d ''drugbank_ids'' (JDict []) = JDict ids"
    by (cases "dict_get d ''drugbank_ids'' (JDict [])") simp_all
  obtain props where props:
    "simplify_properties (dict_get d ''experimental_properties'' JNull) = Inr props"
    using eq unfolding ids py_get.simps py_bind_Inr
    by (cases "simplify_properties (dict_get d ''experimental_properties'' JNull)") simp_all
  obtain dosing where dosing: "simplify_dosing (dict_get d ''dosing_info'' JNull) = Inr dosing"
    using simplify_dosing_total by blast
  from eq have "t = trimmed_record d (dict_get ids ''primary'' JNull)
      (dict_get ids ''secondary'' (JList [])) props dosing"
    unfolding ids py_get.simps py_bind_Inr props dosing by simp
  with ids props dosing show thesis by (rule that)
qed

lemma trim_drug_succeeds:
  assumes "dict_get d ''drugbank_ids'' (JDict []) = JDict ids"
    and "simplify_properties (dict_get d ''experimental_properties'' JNull) = Inr props"
  shows "\<exists>t. trim_drug (JDict d) = Inr t"
proof -
  obtain dosing where "simplify_dosing (dict_get d ''dosing_info'' JNull) = Inr dosing"
    using simplify_dosing_total by blast
  with assms show ?thesis
    by (simp add: trim_drug_dict)
qed

lemma trim_drug_error:
  assumes "trim_drug drug = Inl e"
  shows "e = AttributeError \<or> e = TypeError"
proof (cases "isinstance_dict drug")
  case False
  from trim_drug_not_dict [OF this] assms show ?thesis by simp
next
  case True
  then obtain d where drug: "drug = JDict d" by (auto simp: isinstance_dict_iff)
  show ?thesis
  proof (cases "isinstance_dict (dict_get d ''drugbank_ids'' (JDict []))")
    case False
    then have "py_get (dict_get d ''drugbank_ids'' (JDict [])) ''primary'' JNull = Inl AttributeError"
      by (cases "dict_get d ''drugbank_ids'' (JDict [])") simp_all
    with assms drug show ?thesis by (simp add: trim_drug_dict)
  next
    case True
    then obtain ids where ids: "dict_get d ''drugbank_ids'' (JDict []) = JDict ids"
      by (auto simp: isinstance_dict_iff)
    show ?thesis
    proof (cases "simplify_properties (dict_get d ''experimental_properties'' JNull)")
      case (Inl e')
      with assms drug ids have "e = e'" by (simp add: trim_drug_dict)
      with simplify_properties_error [OF Inl] show ?thesis by simp
    next
      case (Inr props)
      from trim_drug_succeeds [OF ids Inr] assms drug show ?thesis by auto
    qed
  qed
qed

lemma keys_of_trimmed_record: "keys_of (trimmed_record d primary secondary props dosing) = TRIMMED_KEYS"
  by (simp add: keys_of_def trimmed_record_def TRIMMED_KEYS_def)

lemma trim_drug_keys:
  assumes "trim_drug drug = Inr t"
  shows "keys_of t = TRIMMED_KEYS"
    and "\<exists>primary secondary.
           field_of t ''drugbank_ids'' = Some (JDict [(''primary'', primary), (''secondary'', secondary)])"
proof -
  from assms have "isinstance_dict drug"
    using trim_drug_not_dict [of drug] by auto
  then obtain d where "drug = JDict d" by (auto simp: isinstance_dict_iff)
  with assms obtain ids props dosing where
    t: "t = trimmed_record d (dict_get ids ''primary'' JNull) (dict_get ids ''secondary'' (JList []))
           props dosing"
    by (auto elim: trim_drug_Inr)
  show "keys_of t = TRIMMED_KEYS"
    unfolding t by (rule keys_of_trimmed_record)
  show "\<exists>primary secondary.
           field_of t ''drugbank_ids'' = Some (JDict [(''primary'', primary), (''secondary'', secondary)])"
    unfolding t by (simp add: field_of_def trimmed_record_def)
qed

lemma field_of_trimmed_record:
  "field_of (trimmed_record d primary secondary props dosing) ''name'' = Some (dict_get d ''name'' JNull)"
  "field_of (trimmed_record d primary secondary props dosing) ''drugbank_ids''
     = Some (JDict [(''primary'', primary), (''secondary'', secondary)])"
  "field_of (trimmed_record d primary secondary props dosing) ''description''
     = Some (dict_get d ''description'' JNull)"
  "field_of (trimmed_record d primary secondary props dosing) ''type'' = Some (dict_get d ''type'' JNull)"
  "field_of (trimmed_record d primary secondary props dosing) ''groups''
     = Some (dict_get d ''groups'' (JList []))"
  "field_of (trimmed_record d primary secondary props dosing) ''categories''
     = Some (case dict_get d ''categories'' JNull of
               JList xs \<Rightarrow> JList (List.map_filter spec_category_label xs)
             | _ \<Rightarrow> JList [])"
  "field_of (trimmed_record d primary secondary props dosing) ''mechanism_of_action''
     = Some (dict_get d ''mechanism_of_action'' JNull)"
  "field_of (trimmed_record d primary secondary props dosing) ''half_life''
     = Some (dict_get d ''half_life'' JNull)"
  "field_of (trimmed_record d primary secondary props dosing) ''absorption''
     = Some (dict_get d ''absorption'' JNull)"
  "field_of (trimmed_record d primary secondary props dosing) ''metabolism''
     = Some (dict_get d ''metabolism'' JNull)"
  "field_of (trimmed_record d primary secondary props dosing) ''food_interactions''
     = Some (dict_get d ''food_interactions'' (JList []))"
  "field_of (trimmed_record d primary secondary props dosing) ''drug_interactions''
     = Some (case dict_get d ''drug_interactions'' JNull of
               JList xs \<Rightarrow>
                 JList (map (reduce_to [''drugbank_id'', ''name'', ''description''])
                         (filter isinstance_dict xs))
             | _ \<Rightarrow> JList [])"
  "field_of (trimmed_record d primary secondary props dosing) ''experimental_properties'' = Some props"
  "field_of (trimmed_record d primary secondary props dosing) ''dosages''
     = Some (case dict_get d ''dosages'' JNull of
               JList xs \<Rightarrow>
                 JList (map (reduce_to [''form'', ''route'', ''strength'']) (filter isinstance_dict xs))
             | _ \<Rightarrow> JList [])"
  "field_of (trimmed_record d primary secondary props dosing) ''dosing_info'' = Some dosing"
  by (simp_all add: field_of_def trimmed_record_def)

lemma dict_get_missing: "map_of d k = None \<Longrightarrow> dict_get d k dflt = dflt"
  by (simp add: dict_get_def)

lemma dict_get_present: "map_of d k = Some v \<Longrightarrow> dict_get d k dflt = v"
  by (simp add: dict_get_def)

section \<open>Claims about the Compactor's field selection\<close>

text \<open>
  C3. For every categories list, the output of \<^verbatim>\<open>simplify_categories\<close> is the list of the
  entries' labels, in order: a plain string is kept as it is; a mapping gives the first
  non-empty value among those under its keys \<^verbatim>\<open>category\<close>, \<^verbatim>\<open>mesh_id\<close> and
  \<^verbatim>\<open>name\<close>, and nothing when none of them is non-empty. In particular
  \<^verbatim>\<open>["A", {"category": "B"}, {"mesh_id": "C"}, {}]\<close> gives \<^verbatim>\<open>["A", "B", "C"]\<close>.
\<close>

theorem simplify_categories_labels:
  "simplify_categories (JList cats) = Inr (JList (List.map_filter spec_category_label cats))
   \<and> simplify_categories
        (JList [JStr ''A'', JDict [(''category'', JStr ''B'')], JDict [(''mesh_id'', JStr ''C'')], JDict []])
      = Inr (JList [JStr ''A'', JStr ''B'', JStr ''C''])"
proof
  show "simplify_categories (JList cats) = Inr (JList (List.map_filter spec_category_label cats))"
    by (simp add: simplify_categories_def categories_loop_eq)
  show "simplify_categories
        (JList [JStr ''A'', JDict [(''category'', JStr ''B'')], JDict [(''mesh_id'', JStr ''C'')], JDict []])
      = Inr (JList [JStr ''A'', JStr ''B'', JStr ''C''])"
    by (simp add: simplify_categories_def py_or_def dict_get_def)
qed

text \<open>
  C4. The claim is that every entry of an \<^verbatim>\<open>experimental_properties\<close> list whose kind is
  not in the allowed set is dropped. For the list \<^verbatim>\<open>[{"kind": []}]\<close> the membership test
  \<^verbatim>\<open>prop.get("kind") in ESSENTIAL_PROPERTY_KINDS\<close> hashes a list, and
  \<^verbatim>\<open>simplify_properties\<close> raises \<^verbatim>\<open>TypeError\<close> instead of returning the empty list.
  (\<open>simplify_properties_hashable\<close> shows the claimed filter for every list in which no
  mapping has a list or a mapping as its kind, and \<open>simplify_properties_raises_iff\<close> that
  the exception is raised exactly on the others.)
\<close>

theorem simplify_properties_unhashable_kind:
  "simplify_properties (JList [JDict [(''kind'', JList [])]]) = Inl TypeError"
  by (simp add: simplify_properties_def dict_get_def)

text \<open>
  C5. On malformed shapes \<^verbatim>\<open>simplify_dosing\<close>, \<^verbatim>\<open>simplify_categories\<close>,
  \<^verbatim>\<open>simplify_interactions\<close> and \<^verbatim>\<open>simplify_dosages\<close> raise nothing: each returns a
  value on every input; a dosing value that is absent (\<^verbatim>\<open>None\<close>) or not a mapping gives
  \<^verbatim>\<open>{}\<close>; a categories, interactions or dosages value that is not a list gives \<^verbatim>\<open>[]\<close>;
  and the entries of such a list that are not mappings (nor, for categories, strings)
  contribute nothing: the result is that of the list without them.
\<close>

theorem simplify_total_on_malformed:
  "(\<exists>v. simplify_dosing x = Inr v) \<and> (\<exists>v. simplify_categories x = Inr v)
   \<and> (\<exists>v. simplify_interactions x = Inr v) \<and> (\<exists>v. simplify_dosages x = Inr v)
   \<and> simplify_dosing JNull = Inr (JDict [])
   \<and> (\<not> isinstance_dict x \<longrightarrow> simplify_dosing x = Inr (JDict []))
   \<and> (\<not> isinstance_list x \<longrightarrow>
        simplify_categories x = Inr (JList []) \<and> simplify_interactions x = Inr (JList [])
        \<and> simplify_dosages x = Inr (JList []))
   \<and> simplify_interactions (JList xs) = simplify_interactions (JList (filter isinstance_dict xs))
   \<and> simplify_dosages (JList xs) = simplify_dosages (JList (filter isinstance_dict xs))
   \<and> simplify_categories (JList xs) =
        simplify_categories (JList (filter (\<lambda>e. isinstance_dict e \<or> isinstance_str e) xs))"
proof -
  have "\<not> isinstance_list x \<Longrightarrow>
        simplify_categories x = Inr (JList []) \<and> simplify_interactions x = Inr (JList [])
        \<and> simplify_dosages x = Inr (JList [])"
    by (cases x) (simp_all add: simplify_categories_def simplify_interactions_def simplify_dosages_def)
  moreover have "simplify_dosing JNull = Inr (JDict [])"
    "\<not> isinstance_dict x \<Longrightarrow> simplify_dosing x = Inr (JDict [])"
    by (simp_all add: simplify_dosing_def)
  moreover have "simplify_categories (JList xs) =
        simplify_categories (JList (filter (\<lambda>e. isinstance_dict e \<or> isinstance_str e) xs))"
    by (simp add: simplify_categories_eq map_filter_labels_skip)
  ultimately show ?thesis
    using simplify_dosing_total [of x]
    by (simp add: simplify_interactions_eq simplify_dosages_eq simplify_categories_eq)
qed

theorem simplify_total_on_malformed_witness:
  "simplify_dosing (JStr ''twice daily'') = Inr (JDict [])
   \<and> simplify_categories (JInt 3) = Inr (JList [])
   \<and> simplify_interactions (JInt 3) = Inr (JList [])
   \<and> simplify_dosages (JInt 3) = Inr (JList [])
   \<and> simplify_interactions (JList [JInt 1, JDict [(''name'', JStr ''X'')], JStr ''s''])
       = simplify_interactions (JList [JDict [(''name'', JStr ''X'')]])"
  using simplify_total_on_malformed [of "JStr ''twice daily''" "[]"]
    simplify_total_on_malformed [of "JInt 3" "[JInt 1, JDict [(''name'', JStr ''X'')], JStr ''s'']"]
  by simp

text \<open>
  C1, as the specification states it, fails: for the empty source record the field
  \<^verbatim>\<open>name\<close> is missing, and the trimmed record has it with a null value.
\<close>

theorem trim_drug_missing_name_is_null:
  "result_field (trim_drug (JDict [])) ''name'' = Some JNull"
proof -
  have "trim_drug (JDict []) =
      Inr (trimmed_record [] (dict_get [] ''primary'' JNull) (dict_get [] ''secondary'' (JList []))
             (JList []) (JDict []))"
    by (simp add: trim_drug_dict dict_get_missing simplify_properties_def simplify_dosing_def)
  then show ?thesis
    by (simp add: result_field_def field_of_trimmed_record dict_get_missing)
qed

text \<open>
  C1, amended. Whenever \<^verbatim>\<open>trim_drug\<close> returns, a retained field that is missing in the
  source record is present in the trimmed record: with a null value for \<^verbatim>\<open>name\<close>,
  \<^verbatim>\<open>description\<close>, \<^verbatim>\<open>type\<close>, \<^verbatim>\<open>mechanism_of_action\<close>, \<^verbatim>\<open>half_life\<close>,
  \<^verbatim>\<open>absorption\<close>, \<^verbatim>\<open>metabolism\<close> and \<^verbatim>\<open>drugbank_ids.primary\<close>; as the empty
  sequence for \<^verbatim>\<open>groups\<close>, \<^verbatim>\<open>food_interactions\<close>, \<^verbatim>\<open>categories\<close>,
  \<^verbatim>\<open>drug_interactions\<close>, \<^verbatim>\<open>experimental_properties\<close>, \<^verbatim>\<open>dosages\<close> and
  \<^verbatim>\<open>drugbank_ids.secondary\<close>; as the empty mapping for \<^verbatim>\<open>dosing_info\<close>.
\<close>

theorem trim_drug_missing_fields:
  assumes "trim_drug (JDict d) = Inr t"
  shows
    "(\<forall>k\<in>set [''name'', ''description'', ''type'', ''mechanism_of_action'', ''half_life'',
                ''absorption'', ''metabolism''].
        map_of d k = None \<longrightarrow> field_of t k = Some JNull)
     \<and> (\<forall>k\<in>set [''groups'', ''food_interactions'', ''categories'', ''drug_interactions'',
                  ''experimental_properties'', ''dosages''].
        map_of d k = None \<longrightarrow> field_of t k = Some (JList []))
     \<and> (map_of d ''dosing_info'' = None \<longrightarrow> field_of t ''dosing_info'' = Some (JDict []))
     \<and> (map_of d ''drugbank_ids'' = None \<longrightarrow>
          field_of t ''drugbank_ids'' = Some (JDict [(''primary'', JNull), (''secondary'', JList [])]))
     \<and> (\<forall>ids. map_of d ''drugbank_ids'' = Some (JDict ids) \<longrightarrow>
          (\<exists>primary secondary.
             field_of t ''drugbank_ids'' = Some (JDict [(''primary'', primary), (''secondary'', secondary)])
             \<and> (map_of ids ''primary'' = None \<longrightarrow> primary = JNull)
             \<and> (map_of ids ''secondary'' = None \<longrightarrow> secondary = JList [])))"
proof -
  from assms obtain ids props dosing where
    ids: "dict_get d ''drugbank_ids'' (JDict []) = JDict ids" and
    props: "simplify_properties (dict_get d ''experimental_properties'' JNull) = Inr props" and
    dosing: "simplify_dosing (dict_get d ''dosing_info'' JNull) = Inr dosing" and
    t: "t = trimmed_record d (dict_get ids ''primary'' JNull) (dict_get ids ''secondary'' (JList []))
           props dosing"
    by (rule trim_drug_Inr)
  have scalars: "\<forall>k\<in>set [''name'', ''description'', ''type'', ''mechanism_of_action'', ''half_life'',
                ''absorption'', ''metabolism''].
        map_of d k = None \<longrightarrow> field_of t k = Some JNull"
    unfolding t by (simp add: field_of_trimmed_record dict_get_missing)
  have no_props: "props = JList []" if "map_of d ''experimental_properties'' = None"
    using that props by (simp add: dict_get_missing simplify_properties_def)
  have sequences: "\<forall>k\<in>set [''groups'', ''food_interactions'', ''categories'', ''drug_interactions'',
                  ''experimental_properties'', ''dosages''].
        map_of d k = None \<longrightarrow> field_of t k = Some (JList [])"
    unfolding t using no_props by (simp add: field_of_trimmed_record dict_get_missing)
  have no_dosing: "map_of d ''dosing_info'' = None \<longrightarrow> field_of t ''dosing_info'' = Some (JDict [])"
  proof
    assume "map_of d ''dosing_info'' = None"
    then have "dict_get d ''dosing_info'' JNull = JNull" by (simp add: dict_get_missing)
    with dosing have "dosing = JDict []" by (simp add: simplify_dosing_def)
    then show "field_of t ''dosing_info'' = Some (JDict [])"
      unfolding t by (simp add: field_of_trimmed_record)
  qed
  have no_ids: "map_of d ''drugbank_ids'' = None \<longrightarrow>
      field_of t ''drugbank_ids'' = Some (JDict [(''primary'', JNull), (''secondary'', JList [])])"
  proof
    assume "map_of d ''drugbank_ids'' = None"
    with ids have "ids = []" by (simp add: dict_get_missing)
    then show "field_of t ''drugbank_ids'' = Some (JDict [(''primary'', JNull), (''secondary'', JList [])])"
      unfolding t by (simp add: field_of_trimmed_record dict_get_missing)
  qed
  have some_ids: "\<forall>ids'. map_of d ''drugbank_ids'' = Some (JDict ids') \<longrightarrow>
          (\<exists>primary secondary.
             field_of t ''drugbank_ids'' = Some (JDict [(''primary'', primary), (''secondary'', secondary)])
             \<and> (map_of ids' ''primary'' = None \<longrightarrow> primary = JNull)
             \<and> (map_of ids' ''secondary'' = None \<longrightarrow> secondary = JList []))"
  proof (intro allI impI)
    fix ids'
    assume "map_of d ''drugbank_ids'' = Some (JDict ids')"
    with ids have "ids = ids'" by (simp add: dict_get_present)
    then show "\<exists>primary secondary.
             field_of t ''drugbank_ids'' = Some (JDict [(''primary'', primary), (''secondary'', secondary)])
             \<and> (map_of ids' ''primary'' = None \<longrightarrow> primary = JNull)
             \<and> (map_of ids' ''secondary'' = None \<longrightarrow> secondary = JList [])"
      unfolding t by (simp add: field_of_trimmed_record dict_get_missing)
  qed
  show ?thesis
    by (intro conjI scalars sequences no_dosing no_ids some_ids)
qed

theorem trim_drug_missing_fields_witness:
  "\<exists>t. trim_drug (JDict [(''drugbank_ids'', JDict [(''primary'', JStr ''DB00001'')])]) = Inr t
     \<and> field_of t ''name'' = Some JNull \<and> field_of t ''groups'' = Some (JList [])
     \<and> field_of t ''dosing_info'' = Some (JDict [])
     \<and> (\<exists>primary. field_of t ''drugbank_ids''
           = Some (JDict [(''primary'', primary), (''secondary'', JList [])]))"
proof -
  let ?d = "[(''drugbank_ids'', JDict [(''primary'', JStr ''DB00001'')])]"
  have "dict_get ?d ''drugbank_ids'' (JDict []) = JDict [(''primary'', JStr ''DB00001'')]"
    by (simp add: dict_get_def)
  moreover have "simplify_properties (dict_get ?d ''experimental_properties'' JNull) = Inr (JList [])"
    by (simp add: dict_get_def simplify_properties_def)
  ultimately obtain t where t: "trim_drug (JDict ?d) = Inr t"
    using trim_drug_succeeds by blast
  note facts = trim_drug_missing_fields [OF t]
  from facts have "field_of t ''name'' = Some JNull" by simp
  moreover from facts have "field_of t ''groups'' = Some (JList [])" by simp
  moreover from facts have "field_of t ''dosing_info'' = Some (JDict [])" by simp
  moreover from facts have "\<exists>primary. field_of t ''drugbank_ids''
           = Some (JDict [(''primary'', primary), (''secondary'', JList [])])" by simp
  ultimately show ?thesis using t by (intro exI [of _ t]) simp
qed

text \<open>
  C10. The claim is that \<^verbatim>\<open>trim_drug\<close> returns the fifteen keys for every input mapping.
  For the record \<^verbatim>\<open>{"drugbank_ids": null}\<close> the default of
  \<^verbatim>\<open>drug.get("drugbank_ids", {})\<close> does not apply, \<^verbatim>\<open>.get\<close> is called on \<^verbatim>\<open>None\<close>
  and \<^verbatim>\<open>trim_drug\<close> raises \<^verbatim>\<open>AttributeError\<close>. (\<open>trim_drug_keys\<close> shows the fifteen keys
  and the two keys of \<^verbatim>\<open>drugbank_ids\<close> whenever \<^verbatim>\<open>trim_drug\<close> returns, and
  \<open>trim_drug_succeeds\<close> that it returns when \<^verbatim>\<open>drugbank_ids\<close> is absent or a mapping and
  \<^verbatim>\<open>simplify_properties\<close> returns.)
\<close>

theorem trim_drug_null_drugbank_ids:
  "trim_drug (JDict [(''drugbank_ids'', JNull)]) = Inl AttributeError"
  by (simp add: trim_drug_dict dict_get_def)

section \<open>The Compactor's main\<close>

lemma write_drugs_ok:
  assumes "\<forall>drug\<in>set ds. \<exists>t. trim_drug drug = Inr t"
  shows "fst (write_drugs ds first out) = Inr ()"
  using assms
proof (induction ds arbitrary: first out)
  case Nil
  show ?case by simp
next
  case (Cons drug ds)
  from Cons.prems obtain t where "trim_drug drug = Inr t" by auto
  moreover from Cons.prems have "\<forall>drug\<in>set ds. \<exists>t. trim_drug drug = Inr t" by simp
  ultimately show ?case by (simp add: Cons.IH)
qed

lemma write_drugs_error:
  assumes "fst (write_drugs ds first out) = Inl e"
  shows "e = AttributeError \<or> e = TypeError"
  using assms
proof (induction ds arbitrary: first out)
  case Nil
  then show ?case by simp
next
  case (Cons drug ds)
  show ?case
  proof (cases "trim_drug drug")
    case (Inl e')
    with Cons.prems have "e = e'" by simp
    with trim_drug_error [OF Inl] show ?thesis by simp
  next
    case (Inr t)
    with Cons.prems Cons.IH show ?thesis by simp
  qed
qed

lemma compact_main_no_source:
  "source_file w = None \<Longrightarrow> compact_database_main w = (Inl FileNotFoundError, w)"
  by (simp add: compact_database_main_def)

lemma compact_main_skip:
  "source_file w = Some doc \<Longrightarrow> target_file w \<noteq> None \<Longrightarrow>
   compact_database_main w = (Inr (), w\<lparr>compactor_out := compactor_out w @ [CompactExists]\<rparr>)"
  by (simp add: compact_database_main_def)

lemma compact_main_no_metadata:
  "source_file w = Some doc \<Longrightarrow> target_file w = None \<Longrightarrow> items_at doc ''metadata'' = [] \<Longrightarrow>
   compact_database_main w = (Inl StopIteration, w\<lparr>compactor_out := compactor_out w @ [ReadingSource]\<rparr>)"
  by (simp add: compact_database_main_def py_next_def)

lemma compact_main_generate:
  assumes "source_file w = Some doc" "target_file w = None" "items_at doc ''metadata'' = metadata # others"
  shows "fst (compact_database_main w) =
           fst (write_drugs (drugs_items doc) True
                  [Text ''{\"metadata\":'', Dump metadata, Text '',\"drugs\":[''])"
    and "source_file (snd (compact_database_main w)) = Some doc"
    and "target_file (snd (compact_database_main w)) \<noteq> None"
  using assms
  by (simp_all add: compact_database_main_def py_next_def Let_def split: prod.splits sum.splits)

lemma compact_main_not_found_iff:
  "fst (compact_database_main w) = Inl FileNotFoundError \<longleftrightarrow> source_file w = None"
proof
  assume "source_file w = None"
  then show "fst (compact_database_main w) = Inl FileNotFoundError"
    by (simp add: compact_main_no_source)
next
  assume raised: "fst (compact_database_main w) = Inl FileNotFoundError"
  show "source_file w = None"
  proof (rule ccontr)
    assume "source_file w \<noteq> None"
    then obtain doc where doc: "source_file w = Some doc" by auto
    show False
    proof (cases "target_file w = None")
      case False
      from compact_main_skip [OF doc this] raised show False by simp
    next
      case True
      show False
      proof (cases "items_at doc ''metadata''")
        case Nil
        from compact_main_no_metadata [OF doc True this] raised show False by simp
      next
        case (Cons metadata others)
        from compact_main_generate(1) [OF doc True this] raised
        have "fst (write_drugs (drugs_items doc) True
                  [Text ''{\"metadata\":'', Dump metadata, Text '',\"drugs\":['']) = Inl FileNotFoundError"
          by simp
        from write_drugs_error [OF this] show False by simp
      qed
    qed
  qed
qed

lemma compact_main_success_files:
  assumes "fst (compact_database_main w) = Inr ()"
  shows "source_file (snd (compact_database_main w)) \<noteq> None"
    and "target_file (snd (compact_database_main w)) \<noteq> None"
proof -
  from assms have "source_file w \<noteq> None"
    by (cases "source_file w") (simp_all add: compact_main_no_source)
  then obtain doc where doc: "source_file w = Some doc" by auto
  have "source_file (snd (compact_database_main w)) \<noteq> None
      \<and> target_file (snd (compact_database_main w)) \<noteq> None"
  proof (cases "target_file w = None")
    case False
    from compact_main_skip [OF doc this] doc False show ?thesis by simp
  next
    case True
    show ?thesis
    proof (cases "items_at doc ''metadata''")
      case Nil
      from compact_main_no_metadata [OF doc True this] assms show ?thesis by simp
    next
      case (Cons metadata others)
      from compact_main_generate(2,3) [OF doc True this] show ?thesis by simp
    qed
  qed
  then show "source_file (snd (compact_database_main w)) \<noteq> None"
    and "target_file (snd (compact_database_main w)) \<noteq> None"
    by simp_all
qed

section \<open>The Fetcher\<close>

lemma find_token_eq: "find_token cs = first_warning_cookie cs"
  by (induction cs rule: find_token.induct) (simp_all add: first_warning_cookie_def)

lemma fetcher_print_ok:
  "stdout_encodes env \<Longrightarrow>
   fetcher_print env line w = (Inr (), w\<lparr>fetcher_out := fetcher_out w @ [line]\<rparr>)"
  by (simp add: fetcher_print_def)

lemma fetcher_print_fails:
  "\<not> stdout_encodes env \<Longrightarrow> fetcher_print env line w = (Inl UnicodeEncodeError, w)"
  by (simp add: fetcher_print_def)

lemma fetcher_print_keeps:
  "requests (snd (fetcher_print env line w)) = requests w"
  "files (snd (fetcher_print env line w)) = files w"
  by (simp_all add: fetcher_print_def)

lemma requests_save_response: "requests (snd (save_response env r target w)) = requests w"
  by (simp add: save_response_def Let_def fetcher_print_keeps split: option.splits)

lemma requests_download_file:
  "requests (snd (download_file env url target w)) = requests (snd (fetch_response env url w))"
proof -
  have handler: "requests (snd (case fetcher_print env line w1 of
        (Inl e, w2) \<Rightarrow> (Inl e, w2) | (Inr u, w2) \<Rightarrow> (Inr False, w2))) = requests w1"
    for line w1
    by (simp add: fetcher_print_def)
  show ?thesis
  proof (cases "fetch_response env url w")
    case (Pair res w1)
    show ?thesis
    proof (cases res)
      case (Inl e)
      with Pair handler show ?thesis
        by (simp add: download_file_def download_file_try_def)
    next
      case (Inr r)
      obtain res' w2 where s: "save_response env r target w1 = (res', w2)"
        by (cases "save_response env r target w1")
      from requests_save_response [of env r target w1] s have "requests w2 = requests w1" by simp
      with Pair Inr s handler show ?thesis
        by (cases res') (simp_all add: download_file_def download_file_try_def)
    qed
  qed
qed

lemma download_file_returns:
  assumes "stdout_encodes env"
  shows "fst (download_file env url target w) = Inr (fst (download_file_try env url target w) = Inr ())"
proof (cases "download_file_try env url target w")
  case (Pair res w1)
  with assms show ?thesis
    by (cases res) (simp_all add: download_file_def fetcher_print_ok)
qed

lemma save_response_needs_print:
  "\<not> stdout_encodes env \<Longrightarrow> fst (save_response env r target w) \<noteq> Inr ()"
  by (simp add: save_response_def Let_def fetcher_print_fails split: option.splits)

lemma download_file_print_raises:
  assumes "\<not> stdout_encodes env"
  shows "fst (download_file env url target w) = Inl UnicodeEncodeError"
proof (cases "download_file_try env url target w")
  case (Pair res w1)
  show ?thesis
  proof (cases res)
    case (Inl exc)
    with Pair assms show ?thesis
      by (simp add: download_file_def fetcher_print_fails)
  next
    case (Inr u)
    with Pair have completed: "fst (download_file_try env url target w) = Inr ()" by simp
    obtain res' w0 where f: "fetch_response env url w = (res', w0)"
      by (cases "fetch_response env url w")
    show ?thesis
    proof (cases res')
      case (Inl e)
      with f completed show ?thesis by (simp add: download_file_try_def)
    next
      case (Inr r)
      with f completed have "fst (save_response env r target w0) = Inr ()"
        by (simp add: download_file_try_def)
      with save_response_needs_print [OF assms] show ?thesis by simp
    qed
  qed
qed

lemma ensure_file_returns:
  assumes "stdout_encodes env"
  shows "fst (ensure_file env target url w) = Inr ()"
proof (cases url)
  case None
  with assms show ?thesis by (simp add: ensure_file_def fetcher_print_ok)
next
  case (Some u)
  obtain b w1 where "download_file env u target w = (Inr b, w1)"
    using download_file_returns [OF assms, of u target w]
    by (cases "download_file env u target w") auto
  with Some assms show ?thesis by (simp add: ensure_file_def fetcher_print_ok)
qed

lemma download_databases_main_returns:
  assumes "stdout_encodes env"
  shows "fst (download_databases_main env w) = Inr ()"
proof -
  let ?compact_url = "case getenv env ''COMPACT_DATABASE_URL'' of
       None \<Rightarrow> Some DEFAULT_COMPACT_URL | Some v \<Rightarrow> Some v"
  obtain w1 where w1: "ensure_file env COMPACT_DB ?compact_url w = (Inr (), w1)"
    using ensure_file_returns [OF assms, of COMPACT_DB ?compact_url w]
    by (cases "ensure_file env COMPACT_DB ?compact_url w") auto
  obtain w2 where w2: "ensure_file env FULL_DB (getenv env ''DATABASE_URL'') w1 = (Inr (), w2)"
    using ensure_file_returns [OF assms, of FULL_DB "getenv env ''DATABASE_URL''" w1]
    by (cases "ensure_file env FULL_DB (getenv env ''DATABASE_URL'') w1") auto
  from w1 w2 assms show ?thesis
    by (simp add: download_databases_main_def Let_def fetcher_print_ok)
qed

lemma match_file_d_share_link:
  assumes "file_id \<noteq> []" "CHR ''/'' \<notin> set file_id"
  shows "match_file_d (''https://drive.google.com/file/d/'' @ file_id @ ''/'' @ rest) = Some file_id"
proof -
  have "takeWhile (\<lambda>c. c \<noteq> CHR ''/'') (file_id @ ''/'' @ rest) = file_id"
    using assms(2) by (induction file_id) auto
  with assms(1) show ?thesis
    by (simp add: match_file_d_def startswith_def Let_def)
qed

lemma extract_drive_file_id_share_link:
  assumes "file_id \<noteq> []" "CHR ''/'' \<notin> set file_id"
  shows "extract_drive_file_id (''https://drive.google.com/file/d/'' @ file_id @ ''/'' @ rest)
           = Some file_id"
  using match_file_d_share_link [OF assms, of rest]
  by (simp add: extract_drive_file_id_def)

section \<open>Claims about the Compactor's main\<close>

text \<open>
  C6, as the specification states it, fails: the source file exists, holds the document
  \<^verbatim>\<open>{"drugs": []}\<close>, the target does not exist, and \<^verbatim>\<open>main\<close> raises: the generator
  \<^verbatim>\<open>ijson.items(f, "metadata")\<close> is exhausted at once and \<^verbatim>\<open>next\<close> raises
  \<^verbatim>\<open>StopIteration\<close>.
\<close>

theorem compact_main_source_without_metadata:
  "fst (compact_database_main
          \<lparr>source_file = Some (JDict [(''drugs'', JList [])]), target_file = None, compactor_out = []\<rparr>)
   = Inl StopIteration"
  by (simp add: compact_database_main_def py_next_def)

text \<open>
  C6, amended. The Compactor's \<^verbatim>\<open>main\<close> raises the not-found error exactly when the
  source file does not exist (also when the target exists). When the source exists and the
  target exists too, it completes without raising. When the source exists and the target
  does not, it completes without raising provided the source document has a top-level
  \<^verbatim>\<open>metadata\<close> member and \<^verbatim>\<open>trim_drug\<close> returns for every drug record of the document.
\<close>

theorem compact_main_outcome:
  "(fst (compact_database_main w) = Inl FileNotFoundError \<longleftrightarrow> source_file w = None)
   \<and> (source_file w \<noteq> None \<and> target_file w \<noteq> None \<longrightarrow> fst (compact_database_main w) = Inr ())
   \<and> (\<forall>doc. source_file w = Some doc \<and> target_file w = None \<and> items_at doc ''metadata'' \<noteq> []
           \<and> (\<forall>drug\<in>set (drugs_items doc). \<exists>t. trim_drug drug = Inr t)
         \<longrightarrow> fst (compact_database_main w) = Inr ())"
proof (intro conjI allI impI)
  show "fst (compact_database_main w) = Inl FileNotFoundError \<longleftrightarrow> source_file w = None"
    by (rule compact_main_not_found_iff)
next
  assume "source_file w \<noteq> None \<and> target_file w \<noteq> None"
  then obtain doc where "source_file w = Some doc" "target_file w \<noteq> None" by auto
  from compact_main_skip [OF this] show "fst (compact_database_main w) = Inr ()" by simp
next
  fix doc
  assume a: "source_file w = Some doc \<and> target_file w = None \<and> items_at doc ''metadata'' \<noteq> []
           \<and> (\<forall>drug\<in>set (drugs_items doc). \<exists>t. trim_drug drug = Inr t)"
  then obtain metadata others where m: "items_at doc ''metadata'' = metadata # others"
    by (cases "items_at doc ''metadata''") auto
  from a have "source_file w = Some doc" "target_file w = None" by simp_all
  from compact_main_generate(1) [OF this m] write_drugs_ok a
  show "fst (compact_database_main w) = Inr ()" by simp
qed

theorem compact_main_outcome_witness:
  "fst (compact_database_main
          \<lparr>source_file = Some (JDict [(''metadata'', JDict [(''version'', JStr ''5.1'')]),
                                      (''drugs'', JList [JDict [(''name'', JStr ''Aspirin'')]])]),
           target_file = None, compactor_out = []\<rparr>) = Inr ()
   \<and> fst (compact_database_main
          \<lparr>source_file = Some (JDict []), target_file = Some [Text ''{}''], compactor_out = []\<rparr>) = Inr ()
   \<and> fst (compact_database_main
          \<lparr>source_file = None, target_file = Some [Text ''{}''], compactor_out = []\<rparr>)
       = Inl FileNotFoundError"
proof -
  let ?doc = "JDict [(''metadata'', JDict [(''version'', JStr ''5.1'')]),
                     (''drugs'', JList [JDict [(''name'', JStr ''Aspirin'')]])]"
  have items: "drugs_items ?doc = [JDict [(''name'', JStr ''Aspirin'')]]"
    "items_at ?doc ''metadata'' \<noteq> []"
    by (simp_all add: drugs_items_def)
  have "\<exists>t. trim_drug (JDict [(''name'', JStr ''Aspirin'')]) = Inr t"
    by (rule trim_drug_succeeds [where ids = "[]" and props = "JList []"])
       (simp_all add: dict_get_def simplify_properties_def)
  with items have first:
    "fst (compact_database_main \<lparr>source_file = Some ?doc, target_file = None, compactor_out = []\<rparr>)
       = Inr ()"
    using compact_main_outcome
      [of "\<lparr>source_file = Some ?doc, target_file = None, compactor_out = []\<rparr>"]
    by simp
  have second: "fst (compact_database_main
          \<lparr>source_file = Some (JDict []), target_file = Some [Text ''{}''], compactor_out = []\<rparr>) = Inr ()"
    using compact_main_outcome
      [of "\<lparr>source_file = Some (JDict []), target_file = Some [Text ''{}''], compactor_out = []\<rparr>"]
    by simp
  have third: "fst (compact_database_main
          \<lparr>source_file = None, target_file = Some [Text ''{}''], compactor_out = []\<rparr>)
       = Inl FileNotFoundError"
    using compact_main_outcome
      [of "\<lparr>source_file = None, target_file = Some [Text ''{}''], compactor_out = []\<rparr>"]
    by simp
  from first second third show ?thesis by (intro conjI)
qed

text \<open>
  C2, as the specification states it, fails: with the target present, neither script
  always completes successfully. The Compactor's \<^verbatim>\<open>main\<close> checks the source first and
  raises the not-found error when it is absent, whether or not the target exists; and
  \<^verbatim>\<open>ensure_file\<close> prints a line on its fast path, which raises on a standard output that
  cannot encode it.
\<close>

theorem existing_target_not_always_success:
  "fst (compact_database_main
          \<lparr>source_file = None, target_file = Some [Text ''{}''], compactor_out = []\<rparr>)
     = Inl FileNotFoundError
   \<and> fst (ensure_file
          \<lparr>http_get = (\<lambda>r. Inl ConnectionError), open_error = (\<lambda>p. None), getenv = (\<lambda>n. None),
             stdout_encodes = False\<rparr>
          ''db.json'' (Some ''https://example.org/db.json'')
          \<lparr>files = [''db.json'' \<mapsto> ''{}''], requests = [], fetcher_out = []\<rparr>)
     = Inl UnicodeEncodeError"
  by (simp add: compact_database_main_def ensure_file_def fetcher_print_def)

text \<open>
  C2, amended. When the target file already exists, neither script changes a file: the
  Compactor's \<^verbatim>\<open>main\<close> leaves the source and the target as they are, and the Fetcher's
  \<^verbatim>\<open>ensure_file\<close> issues no network request and leaves every file as it is. The
  operation completes as a successful no-op for the Compactor when the source file
  exists as well, in particular on a run that follows a run that completed (with the
  source missing \<^verbatim>\<open>main\<close> raises the not-found error and changes nothing), and for
  \<^verbatim>\<open>ensure_file\<close> when standard output can encode the line it prints.
\<close>

theorem existing_target_is_noop:
  "(target_file w \<noteq> None \<longrightarrow>
      source_file (snd (compact_database_main w)) = source_file w
      \<and> target_file (snd (compact_database_main w)) = target_file w)
   \<and> (source_file w \<noteq> None \<and> target_file w \<noteq> None \<longrightarrow>
        compact_database_main w = (Inr (), w\<lparr>compactor_out := compactor_out w @ [CompactExists]\<rparr>))
   \<and> (source_file w = None \<and> target_file w \<noteq> None \<longrightarrow>
        compact_database_main w = (Inl FileNotFoundError, w))
   \<and> (fst (compact_database_main w) = Inr () \<longrightarrow>
        fst (compact_database_main (snd (compact_database_main w))) = Inr ()
        \<and> source_file (snd (compact_database_main (snd (compact_database_main w))))
            = source_file (snd (compact_database_main w))
        \<and> target_file (snd (compact_database_main (snd (compact_database_main w))))
            = target_file (snd (compact_database_main w)))
   \<and> (files fw target \<noteq> None \<longrightarrow>
        requests (snd (ensure_file env target url fw)) = requests fw
        \<and> files (snd (ensure_file env target url fw)) = files fw
        \<and> (stdout_encodes env \<longrightarrow>
             ensure_file env target url fw
               = (Inr (), fw\<lparr>fetcher_out := fetcher_out fw @ [AlreadyPresent target]\<rparr>)))"
proof (intro conjI impI)
  assume "target_file w \<noteq> None"
  then show "source_file (snd (compact_database_main w)) = source_file w"
    and "target_file (snd (compact_database_main w)) = target_file w"
    by (cases "source_file w"; simp add: compact_main_no_source compact_main_skip)+
next
  assume "source_file w \<noteq> None \<and> target_file w \<noteq> None"
  then obtain doc where "source_file w = Some doc" "target_file w \<noteq> None" by auto
  then show "compact_database_main w = (Inr (), w\<lparr>compactor_out := compactor_out w @ [CompactExists]\<rparr>)"
    by (rule compact_main_skip)
next
  assume "source_file w = None \<and> target_file w \<noteq> None"
  then show "compact_database_main w = (Inl FileNotFoundError, w)"
    by (simp add: compact_main_no_source)
next
  let ?w1 = "snd (compact_database_main w)"
  assume "fst (compact_database_main w) = Inr ()"
  from compact_main_success_files [OF this]
  obtain doc where "source_file ?w1 = Some doc" "target_file ?w1 \<noteq> None" by auto
  from compact_main_skip [OF this]
  show "fst (compact_database_main ?w1) = Inr ()"
    and "source_file (snd (compact_database_main ?w1)) = source_file ?w1"
    and "target_file (snd (compact_database_main ?w1)) = target_file ?w1"
    by simp_all
next
  assume present: "files fw target \<noteq> None"
  then show "requests (snd (ensure_file env target url fw)) = requests fw"
    and "files (snd (ensure_file env target url fw)) = files fw"
    by (simp_all add: ensure_file_def fetcher_print_keeps)
  assume "stdout_encodes env"
  with present show "ensure_file env target url fw
               = (Inr (), fw\<lparr>fetcher_out := fetcher_out fw @ [AlreadyPresent target]\<rparr>)"
    by (simp add: ensure_file_def fetcher_print_ok)
qed

theorem existing_target_is_noop_witness:
  "compact_database_main
     \<lparr>source_file = Some (JDict []), target_file = Some [Text ''{}''], compactor_out = []\<rparr>
   = (Inr (), \<lparr>source_file = Some (JDict []), target_file = Some [Text ''{}''],
               compactor_out = [CompactExists]\<rparr>)
   \<and> compact_database_main
        \<lparr>source_file = None, target_file = Some [Text ''{}''], compactor_out = []\<rparr>
      = (Inl FileNotFoundError,
         \<lparr>source_file = None, target_file = Some [Text ''{}''], compactor_out = []\<rparr>)
   \<and> target_file (snd (compact_database_main (snd (compact_database_main
          \<lparr>source_file = Some (JDict [(''metadata'', JNull)]), target_file = None, compactor_out = []\<rparr>))))
       = Some [Text ''{\"metadata\":'', Dump JNull, Text '',\"drugs\":['', Text '']}'']
   \<and> ensure_file
          \<lparr>http_get = (\<lambda>r. Inl ConnectionError), open_error = (\<lambda>p. None), getenv = (\<lambda>n. None),
             stdout_encodes = True\<rparr>
          ''db.json'' (Some ''https://example.org/db.json'')
          \<lparr>files = [''db.json'' \<mapsto> ''{}''], requests = [], fetcher_out = []\<rparr>
       = (Inr (), \<lparr>files = [''db.json'' \<mapsto> ''{}''], requests = [],
                   fetcher_out = [AlreadyPresent ''db.json'']\<rparr>)"
proof -
  let ?w0 = "\<lparr>source_file = Some (JDict [(''metadata'', JNull)]), target_file = None, compactor_out = []\<rparr>"
  let ?present = "\<lparr>source_file = Some (JDict []), target_file = Some [Text ''{}''], compactor_out = []\<rparr>"
  let ?absent = "\<lparr>source_file = None, target_file = Some [Text ''{}''], compactor_out = []\<rparr>"
  let ?fw = "\<lparr>files = [''db.json'' \<mapsto> ''{}''], requests = [], fetcher_out = []\<rparr>"
  let ?env = "\<lparr>http_get = (\<lambda>r. Inl ConnectionError), open_error = (\<lambda>p. None), getenv = (\<lambda>n. None),
             stdout_encodes = True\<rparr>"
  have run: "compact_database_main ?w0 =
      (Inr (), \<lparr>source_file = Some (JDict [(''metadata'', JNull)]),
                target_file = Some [Text ''{\"metadata\":'', Dump JNull, Text '',\"drugs\":['', Text '']}''],
                compactor_out = [ReadingSource, WroteCompact]\<rparr>)"
    by (simp add: compact_database_main_def py_next_def drugs_items_def)
  note present = existing_target_is_noop [of ?present ?fw "''db.json''" ?env "Some ''https://example.org/db.json''"]
  note absent = existing_target_is_noop [of ?absent ?fw "''db.json''" ?env "Some ''https://example.org/db.json''"]
  note again = existing_target_is_noop [of ?w0 ?fw "''db.json''" ?env "Some ''https://example.org/db.json''"]
  have a: "compact_database_main ?present
   = (Inr (), \<lparr>source_file = Some (JDict []), target_file = Some [Text ''{}''],
               compactor_out = [CompactExists]\<rparr>)"
    using present [THEN conjunct2, THEN conjunct1] by simp
  have b: "compact_database_main ?absent = (Inl FileNotFoundError, ?absent)"
    using absent [THEN conjunct2, THEN conjunct2, THEN conjunct1] by simp
  have c: "target_file (snd (compact_database_main (snd (compact_database_main ?w0))))
       = Some [Text ''{\"metadata\":'', Dump JNull, Text '',\"drugs\":['', Text '']}'']"
    using again [THEN conjunct2, THEN conjunct2, THEN conjunct2, THEN conjunct1] run by simp
  have d: "ensure_file ?env ''db.json'' (Some ''https://example.org/db.json'') ?fw
       = (Inr (), \<lparr>files = [''db.json'' \<mapsto> ''{}''], requests = [],
                   fetcher_out = [AlreadyPresent ''db.json'']\<rparr>)"
    using present [THEN conjunct2, THEN conjunct2, THEN conjunct2, THEN conjunct2] by simp
  from a b c d show ?thesis by (intro conjI)
qed

section \<open>Claims about the Fetcher\<close>

text \<open>
  C8. For the share link \<^verbatim>\<open>https://drive.google.com/file/d/ABC123/view?usp=drive_link\<close>
  \<^verbatim>\<open>extract_drive_file_id\<close> returns \<^verbatim>\<open>ABC123\<close>, and \<^verbatim>\<open>build_drive_download_url\<close> maps
  that identifier to \<^verbatim>\<open>https://drive.google.com/uc?export=download&id=ABC123\<close>.
  (\<open>extract_drive_file_id_share_link\<close> gives the identifier of every share link of
  that shape.)
\<close>

theorem drive_share_link_sample:
  "extract_drive_file_id ''https://drive.google.com/file/d/ABC123/view?usp=drive_link'' = Some ''ABC123''
   \<and> build_drive_download_url ''ABC123'' = ''https://drive.google.com/uc?export=download&id=ABC123''"
  by (simp add: extract_drive_file_id_def match_file_d_def startswith_def build_drive_download_url_def)

text \<open>
  C7, as the specification states it, fails: the initial response carries a cookie whose
  key starts with \<^verbatim>\<open>download_warning\<close>, its value is the empty string, and
  \<^verbatim>\<open>download_file\<close> issues the first request only, because \<^verbatim>\<open>if token:\<close> is false for
  the empty string.
\<close>

theorem empty_warning_cookie_no_second_request:
  "requests (snd (download_file
      \<lparr>http_get = (\<lambda>r. Inr \<lparr>cookies = [(''download_warning_1'', '''')], status_code = 200,
                             content_chunks = [''{}''], stream_error = None\<rparr>),
       open_error = (\<lambda>p. None), getenv = (\<lambda>n. None),
       stdout_encodes = True\<rparr>
      ''http://h/f'' ''db.json''
      \<lparr>files = (\<lambda>p. None), requests = [], fetcher_out = []\<rparr>))
   = [\<lparr>req_url = ''http://h/f'', req_params = []\<rparr>]"
proof -
  have "download_url_of ''http://h/f'' = ''http://h/f''"
    by (simp add: download_url_of_def extract_drive_file_id_def match_file_d_def match_id_def
          startswith_def)
  then show ?thesis
    by (simp add: requests_download_file fetch_response_def startswith_def)
qed

text \<open>
  C7, amended. In \<^verbatim>\<open>download_file\<close>, when the initial request returns a response, a
  second request is issued if and only if the first cookie of that response (in the jar's
  order) whose key starts with \<^verbatim>\<open>download_warning\<close> has a value that is not the empty
  string; the second request goes to the same download URL and carries that value as the
  \<^verbatim>\<open>confirm\<close> parameter. Otherwise (no such cookie, or an empty value) the first
  request is the only one and the initial response is the one that is saved.
\<close>

theorem confirm_request_iff_token:
  assumes "http_get env \<lparr>req_url = download_url_of url, req_params = []\<rparr> = Inr r1"
  shows
    "requests (snd (download_file env url target w)) =
       requests w @ \<lparr>req_url = download_url_of url, req_params = []\<rparr> #
         (case first_warning_cookie (cookies r1) of
            None \<Rightarrow> []
          | Some token \<Rightarrow>
              if token = [] then []
              else [\<lparr>req_url = download_url_of url, req_params = [(''confirm'', token)]\<rparr>])
     \<and> (first_warning_cookie (cookies r1) = None \<or> first_warning_cookie (cookies r1) = Some []
          \<longrightarrow> download_file_try env url target w =
                save_response env r1 target
                  (w\<lparr>requests := requests w @ [\<lparr>req_url = download_url_of url, req_params = []\<rparr>]\<rparr>))"
proof
  show "requests (snd (download_file env url target w)) =
       requests w @ \<lparr>req_url = download_url_of url, req_params = []\<rparr> #
         (case first_warning_cookie (cookies r1) of
            None \<Rightarrow> []
          | Some token \<Rightarrow>
              if token = [] then []
              else [\<lparr>req_url = download_url_of url, req_params = [(''confirm'', token)]\<rparr>])"
    using assms
    by (simp add: requests_download_file fetch_response_def find_token_eq Let_def split: option.splits)
  show "first_warning_cookie (cookies r1) = None \<or> first_warning_cookie (cookies r1) = Some []
          \<longrightarrow> download_file_try env url target w =
                save_response env r1 target
                  (w\<lparr>requests := requests w @ [\<lparr>req_url = download_url_of url, req_params = []\<rparr>]\<rparr>)"
    using assms
    by (auto simp: download_file_try_def fetch_response_def find_token_eq Let_def)
qed

theorem confirm_request_iff_token_witness:
  "requests (snd (download_file
      \<lparr>http_get = (\<lambda>r. Inr \<lparr>cookies = [(''NID'', ''511''), (''download_warning_1'', ''t0Ken'')],
                             status_code = 200, content_chunks = [''{}''], stream_error = None\<rparr>),
       open_error = (\<lambda>p. None), getenv = (\<lambda>n. None),
       stdout_encodes = True\<rparr>
      ''http://h/f'' ''db.json''
      \<lparr>files = (\<lambda>p. None), requests = [], fetcher_out = []\<rparr>))
   = [\<lparr>req_url = ''http://h/f'', req_params = []\<rparr>,
      \<lparr>req_url = ''http://h/f'', req_params = [(''confirm'', ''t0Ken'')]\<rparr>]"
proof -
  let ?r = "\<lparr>cookies = [(''NID'', ''511''), (''download_warning_1'', ''t0Ken'')],
              status_code = 200, content_chunks = [''{}''], stream_error = None\<rparr>"
  let ?env = "\<lparr>http_get = (\<lambda>r. Inr ?r), open_error = (\<lambda>p. None), getenv = (\<lambda>n. None),
       stdout_encodes = True\<rparr>"
  have url: "download_url_of ''http://h/f'' = ''http://h/f''"
    by (simp add: download_url_of_def extract_drive_file_id_def match_file_d_def match_id_def
          startswith_def)
  have "http_get ?env \<lparr>req_url = download_url_of ''http://h/f'', req_params = []\<rparr> = Inr ?r"
    by simp
  from confirm_request_iff_token [OF this, of "''db.json''"
      "\<lparr>files = (\<lambda>p. None), requests = [], fetcher_out = []\<rparr>"]
  show ?thesis
    by (simp add: url first_warning_cookie_def startswith_def)
qed

text \<open>
  C9, as the specification states it, fails: on a standard output that cannot encode the
  sign of the failure line, the \<^verbatim>\<open>print\<close> inside the \<^verbatim>\<open>except\<close> handler of
  \<^verbatim>\<open>download_file\<close> raises \<^verbatim>\<open>UnicodeEncodeError\<close>, which leaves \<^verbatim>\<open>download_file\<close>,
  \<^verbatim>\<open>ensure_file\<close> and \<^verbatim>\<open>main\<close>. Here the request fails and no URL is set in the
  environment, so \<^verbatim>\<open>main\<close> tries the default link.
\<close>

theorem download_failure_print_raises:
  "fst (download_file
      \<lparr>http_get = (\<lambda>r. Inl ConnectionError), open_error = (\<lambda>p. None), getenv = (\<lambda>n. None),
         stdout_encodes = False\<rparr>
      ''http://h/f'' ''db.json'' \<lparr>files = (\<lambda>p. None), requests = [], fetcher_out = []\<rparr>)
     = Inl UnicodeEncodeError
   \<and> fst (download_databases_main
      \<lparr>http_get = (\<lambda>r. Inl ConnectionError), open_error = (\<lambda>p. None), getenv = (\<lambda>n. None),
         stdout_encodes = False\<rparr>
      \<lparr>files = (\<lambda>p. None), requests = [], fetcher_out = []\<rparr>)
     = Inl UnicodeEncodeError"
proof
  let ?env = "\<lparr>http_get = (\<lambda>r. Inl ConnectionError), open_error = (\<lambda>p. None), getenv = (\<lambda>n. None),
         stdout_encodes = False\<rparr>"
  let ?w = "\<lparr>files = (\<lambda>p. None), requests = [], fetcher_out = []\<rparr>"
  have raises: "fst (download_file ?env url target ?w) = Inl UnicodeEncodeError" for url target
    by (simp add: download_file_def download_file_try_def fetch_response_def fetcher_print_def Let_def)
  show "fst (download_file ?env ''http://h/f'' ''db.json'' ?w) = Inl UnicodeEncodeError"
    by (rule raises)
  have "DEFAULT_COMPACT_URL \<noteq> []"
    by (simp add: DEFAULT_COMPACT_URL_def)
  with raises [of DEFAULT_COMPACT_URL COMPACT_DB]
  have "fst (ensure_file ?env COMPACT_DB (Some DEFAULT_COMPACT_URL) ?w) = Inl UnicodeEncodeError"
    by (cases "download_file ?env DEFAULT_COMPACT_URL COMPACT_DB ?w") (simp add: ensure_file_def)
  then show "fst (download_databases_main ?env ?w) = Inl UnicodeEncodeError"
    by (cases "ensure_file ?env COMPACT_DB (Some DEFAULT_COMPACT_URL) ?w")
       (simp add: download_databases_main_def Let_def)
qed

text \<open>
  C9, amended. For every Fetcher run whose standard output can encode the lines it
  prints, download failures are soft. \<^verbatim>\<open>download_file\<close> never lets an exception out: it
  returns \<^verbatim>\<open>True\<close> when its \<^verbatim>\<open>try\<close> block completes and \<^verbatim>\<open>False\<close> when the block
  raises, in particular when the request raises and when the response has a 4xx or 5xx
  status (in both cases no file is written). \<^verbatim>\<open>ensure_file\<close> with no URL (none, or the
  empty string) for an absent target only prints the warning. \<^verbatim>\<open>ensure_file\<close> and the
  Fetcher's \<^verbatim>\<open>main\<close> return normally in every network and file system.
\<close>

theorem download_failures_are_soft:
  assumes "stdout_encodes env"
  shows
  "(\<exists>b w1. download_file env url target w = (Inr b, w1))
   \<and> fst (download_file env url target w) = Inr (fst (download_file_try env url target w) = Inr ())
   \<and> (\<forall>e. http_get env \<lparr>req_url = download_url_of url, req_params = []\<rparr> = Inl e \<longrightarrow>
          fst (download_file env url target w) = Inr False
          \<and> files (snd (download_file env url target w)) = files w)
   \<and> (\<forall>r w1. fetch_response env url w = (Inr r, w1) \<and> 400 \<le> status_code r \<and> status_code r < 600
          \<longrightarrow> fst (download_file env url target w) = Inr False
              \<and> files (snd (download_file env url target w)) = files w)
   \<and> (files w target = None \<and> (u = None \<or> u = Some []) \<longrightarrow>
          ensure_file env target u w = (Inr (), w\<lparr>fetcher_out := fetcher_out w @ [NoUrl target]\<rparr>))
   \<and> fst (ensure_file env target u w) = Inr ()
   \<and> fst (download_databases_main env w) = Inr ()"
proof (intro conjI allI impI)
  show "\<exists>b w1. download_file env url target w = (Inr b, w1)"
    using download_file_returns [OF assms, of url target w]
    by (cases "download_file env url target w") auto
  show "fst (download_file env url target w) = Inr (fst (download_file_try env url target w) = Inr ())"
    using assms by (rule download_file_returns)
  show "fst (ensure_file env target u w) = Inr ()"
    using assms by (rule ensure_file_returns)
  show "fst (download_databases_main env w) = Inr ()"
    using assms by (rule download_databases_main_returns)
next
  fix e
  assume "http_get env \<lparr>req_url = download_url_of url, req_params = []\<rparr> = Inl e"
  with assms show "fst (download_file env url target w) = Inr False"
    and "files (snd (download_file env url target w)) = files w"
    by (simp_all add: download_file_def download_file_try_def fetch_response_def Let_def
          fetcher_print_ok)
next
  fix r w1
  assume a: "fetch_response env url w = (Inr r, w1) \<and> 400 \<le> status_code r \<and> status_code r < 600"
  have "files w1 = files w"
  proof -
    have "files (snd (fetch_response env url w)) = files w"
      by (simp add: fetch_response_def Let_def split: sum.splits option.splits)
    with a show ?thesis by simp
  qed
  with a assms show "fst (download_file env url target w) = Inr False"
    and "files (snd (download_file env url target w)) = files w"
    by (simp_all add: download_file_def download_file_try_def save_response_def fetcher_print_ok)
next
  assume "files w target = None \<and> (u = None \<or> u = Some [])"
  with assms show "ensure_file env target u w = (Inr (), w\<lparr>fetcher_out := fetcher_out w @ [NoUrl target]\<rparr>)"
    by (auto simp: ensure_file_def fetcher_print_ok)
qed

theorem download_failures_are_soft_witness:
  "fst (download_file
      \<lparr>http_get = (\<lambda>r. Inl ConnectionError), open_error = (\<lambda>p. None), getenv = (\<lambda>n. None),
         stdout_encodes = True\<rparr>
      ''http://h/f'' ''db.json'' \<lparr>files = (\<lambda>p. None), requests = [], fetcher_out = []\<rparr>) = Inr False
   \<and> fst (download_file
      \<lparr>http_get = (\<lambda>r. Inr \<lparr>cookies = [], status_code = 404, content_chunks = [], stream_error = None\<rparr>),
       open_error = (\<lambda>p. None), getenv = (\<lambda>n. None), stdout_encodes = True\<rparr>
      ''http://h/f'' ''db.json'' \<lparr>files = (\<lambda>p. None), requests = [], fetcher_out = []\<rparr>) = Inr False
   \<and> ensure_file
      \<lparr>http_get = (\<lambda>r. Inl ConnectionError), open_error = (\<lambda>p. None), getenv = (\<lambda>n. None),
         stdout_encodes = True\<rparr>
      ''db.json'' None \<lparr>files = (\<lambda>p. None), requests = [], fetcher_out = []\<rparr>
     = (Inr (), \<lparr>files = (\<lambda>p. None), requests = [], fetcher_out = [NoUrl ''db.json'']\<rparr>)
   \<and> fst (download_databases_main
      \<lparr>http_get = (\<lambda>r. Inl ConnectionError), open_error = (\<lambda>p. None), getenv = (\<lambda>n. None),
         stdout_encodes = True\<rparr>
      \<lparr>files = (\<lambda>p. None), requests = [], fetcher_out = []\<rparr>) = Inr ()"
proof -
  let ?w = "\<lparr>files = (\<lambda>p. None), requests = [], fetcher_out = []\<rparr>"
  let ?down = "\<lparr>http_get = (\<lambda>r. Inl ConnectionError), open_error = (\<lambda>p. None), getenv = (\<lambda>n. None),
         stdout_encodes = True\<rparr>"
  let ?r = "\<lparr>cookies = [], status_code = 404, content_chunks = [], stream_error = None\<rparr>"
  let ?missing = "\<lparr>http_get = (\<lambda>r. Inr ?r), open_error = (\<lambda>p. None), getenv = (\<lambda>n. None),
         stdout_encodes = True\<rparr>"
  have encodes: "stdout_encodes ?down" "stdout_encodes ?missing"
    by simp_all
  note down = download_failures_are_soft [OF encodes(1), of "''http://h/f''" "''db.json''" ?w None]
  note missing = download_failures_are_soft [OF encodes(2), of "''http://h/f''" "''db.json''" ?w None]
  have a: "fst (download_file ?down ''http://h/f'' ''db.json'' ?w) = Inr False"
    using down [THEN conjunct2, THEN conjunct2, THEN conjunct1]
    by simp
  have "fetch_response ?missing ''http://h/f'' ?w =
      (Inr ?r, ?w\<lparr>requests := [\<lparr>req_url = download_url_of ''http://h/f'', req_params = []\<rparr>]\<rparr>)"
    by (simp add: fetch_response_def Let_def)
  then have b: "fst (download_file ?missing ''http://h/f'' ''db.json'' ?w) = Inr False"
    using missing [THEN conjunct2, THEN conjunct2, THEN conjunct2, THEN conjunct1]
    by simp
  have c: "ensure_file ?down ''db.json'' None ?w
     = (Inr (), \<lparr>files = (\<lambda>p. None), requests = [], fetcher_out = [NoUrl ''db.json'']\<rparr>)"
    using down [THEN conjunct2, THEN conjunct2, THEN conjunct2, THEN conjunct2, THEN conjunct1]
    by simp
  have d: "fst (download_databases_main ?down ?w) = Inr ()"
    using down [THEN conjunct2, THEN conjunct2, THEN conjunct2, THEN conjunct2, THEN conjunct2,
      THEN conjunct2]
    by simp
  from a b c d show ?thesis by (intro conjI)
qed

end
